theory Spec2Isabelle
  imports Main "HOL-Library.AList" "HOL-Library.Multiset"
begin

section \<open>Data model (auction.go, lines 17-45)\<close>

text \<open>
  The chaincode keeps one \<open>Auction\<close> document per auction id in the public world
  state and one bid document per bid key in each organisation's private collection.
  Byte slices are byte strings.  A Go map is an association list whose keys are
  distinct; the order of the list stands for the order in which a \<open>range\<close> loop
  visits the entries, which Go leaves unspecified, so a statement proved for every list
  holds for every iteration order.  Go's \<open>int\<close> is only ever compared, never computed
  with, so prices are integers.
\<close>

type_synonym bytes = string

record FullBid =
  FullBid_Type :: string
  FullBid_Price :: int
  FullBid_Org :: string
  Bidder :: string

record BidCommitment =
  Org :: string
  Commitment :: string

record Auction =
  Type :: string
  ItemSold :: string
  Seller :: string
  Orgs :: "string list"
  PrivateBids :: "(string \<times> BidCommitment) list"
  RevealedBids :: "(string \<times> FullBid) list"
  Winner :: string
  Price :: int
  Status :: string

definition bidKeyType :: string where
  "bidKeyType = ''bid''"

section \<open>Errors\<close>

text \<open>
  One constructor for each error the two source files return.  An error that wraps the
  error of a function of these files (\<open>QueryAuction\<close>, \<open>checkForHigherBid\<close>) carries
  it; the error values of the platform are opaque.
\<close>

datatype error =
    ClientIdentityError
  | PutAuctionError
  | EndorsementError
  | TransientError
  | BidKeyNotFound
  | CollectionNameError
  | NotMemberOfOrg
  | CompositeKeyError
  | PutPrivateDataError
  | GetStateError
  | AuctionDoesNotExist
  | GetAuctionError error
  | CannotJoinAuction
  | ECKeyError
  | ReadCommitmentError
  | CommitmentDoesNotExist
  | UpdateAuctionError
  | OnlySellerCanReveal
  | CannotRevealBid
  | LedgerCommitmentMismatch
  | AuctionCommitmentMismatch
  | UnmarshalError
  | NotOwnerOfBid
  | OnlySellerCanClose
  | CannotCloseAuction
  | CloseAuctionError
  | OnlySellerCanEnd
  | CanOnlyEndClosed
  | NoBidsRevealed
  | CannotEndAuction error
  | EndAuctionError
  | GetBidError
  | BidDoesNotExist
  | HigherBidExists
  | PeerMSPIDError

section \<open>The transaction context and the world state\<close>

text \<open>
  \<open>World\<close> is what the stub reads and writes: the public state (auction id to auction
  document; the state holds the document itself, and JSON decoding gives it back or
  fails, as the context says), the private collections (collection name and key to
  bytes) and the key-level endorsement policies.  Encoding an auction cannot fail, so the
  error return after \<open>json.Marshal\<close> in \<open>CreateAuction\<close> has no branch.

  \<open>Ctx\<close> is the transaction context: the identity of the caller and of the peer, the
  transient input, the transaction id, and the outcome of each platform call that the
  source checks for an error.  A call that returns \<open>(value, err)\<close> is an option,
  \<open>None\<close> for \<open>err \<noteq> nil\<close>; a byte slice that may be \<open>nil\<close> is an option as
  well.  The helpers of the repository's missing file (\<open>GetSubmittingClientIdentity\<close>,
  \<open>getCollectionName\<close>, \<open>verifyClientOrgMatchesPeerOrg\<close>) and the primitives of
  the libraries (key derivation, \<open>VectorPCommit\<close>, the hash \<open>Sum\<close>, \<open>RPProve\<close>,
  \<open>RPVerify\<close>, \<open>Sprintf\<close> with \<open>%x\<close>, JSON decoding of a bid) are parameters: what
  is proved holds however they behave.
\<close>

record World =
  PublicState :: "string \<rightharpoonup> Auction"
  PrivateData :: "string \<times> string \<rightharpoonup> bytes"
  Endorsers :: "string \<rightharpoonup> string list"

record Ctx =
  GetSubmittingClientIdentity :: "string option"
  GetMSPID :: "string option"
  PeerMSPID :: "string option"
  GetTransient :: "(string \<rightharpoonup> bytes) option"
  GetTxID :: string
  getCollectionName :: "string option"
  verifyClientOrgMatchesPeerOrg :: bool
  CreateCompositeKey :: "string \<Rightarrow> string list \<Rightarrow> string option"
  NewECPrimeGroupKey :: "string \<Rightarrow> string list \<Rightarrow> string option"
  VectorPCommit :: "(string \<times> string \<rightharpoonup> bytes) \<Rightarrow> string \<Rightarrow> string \<Rightarrow> bytes option option"
  Sum :: "bytes \<Rightarrow> bytes"
  Sprintf_x :: "bytes \<Rightarrow> string"
  RPProve :: "bytes \<Rightarrow> bytes"
  RPVerify :: "bytes \<Rightarrow> bool"
  Unmarshal :: "bytes \<Rightarrow> FullBid option"
  GetStateFails :: "string \<Rightarrow> bool"
  UnmarshalAuctionFails :: "string \<Rightarrow> bool"
  PutStateFails :: "string \<Rightarrow> bool"
  GetPrivateDataFails :: "string \<Rightarrow> string \<Rightarrow> bool"
  PutPrivateDataFails :: "string \<Rightarrow> string \<Rightarrow> bool"
  EndorsementFails :: "string \<Rightarrow> bool"

subsection \<open>Stub operations\<close>

definition PutState :: "Ctx \<Rightarrow> World \<Rightarrow> string \<Rightarrow> Auction \<Rightarrow> World option" where
  "PutState ctx w key a =
     (if PutStateFails ctx key then None
      else Some (w\<lparr>PublicState := (PublicState w)(key \<mapsto> a)\<rparr>))"

definition PutPrivateData :: "Ctx \<Rightarrow> World \<Rightarrow> string \<Rightarrow> string \<Rightarrow> bytes \<Rightarrow> World option" where
  "PutPrivateData ctx w collection key v =
     (if PutPrivateDataFails ctx collection key then None
      else Some (w\<lparr>PrivateData := (PrivateData w)((collection, key) \<mapsto> v)\<rparr>))"

definition GetPrivateData :: "Ctx \<Rightarrow> World \<Rightarrow> string \<Rightarrow> string \<Rightarrow> bytes option option" where
  "GetPrivateData ctx w collection key =
     (if GetPrivateDataFails ctx collection key then None
      else Some (PrivateData w (collection, key)))"

text \<open>
  Modelled from the spec: \<open>setAssetStateBasedEndorsement\<close> is in a file of the
  repository that is not among the sources.  The spec (4.4, \<open>setSoleEndorser\<close>) has it
  make one organisation the only endorser of the auction; the call can fail.
\<close>

definition setAssetStateBasedEndorsement :: "Ctx \<Rightarrow> World \<Rightarrow> string \<Rightarrow> string \<Rightarrow> World option" where
  "setAssetStateBasedEndorsement ctx w auctionID orgID =
     (if EndorsementFails ctx auctionID then None
      else Some (w\<lparr>Endorsers := (Endorsers w)(auctionID \<mapsto> [orgID])\<rparr>))"

text \<open>
  Modelled from the spec: \<open>addAssetStateBasedEndorsement\<close> is in the same missing file.
  The spec (4.4, \<open>addEndorser\<close>) has it add an organisation to the endorsers of the
  auction, idempotently; the call can fail.
\<close>

definition addAssetStateBasedEndorsement :: "Ctx \<Rightarrow> World \<Rightarrow> string \<Rightarrow> string \<Rightarrow> World option" where
  "addAssetStateBasedEndorsement ctx w auctionID orgID =
     (if EndorsementFails ctx auctionID then None
      else Some (w\<lparr>Endorsers := (Endorsers w)(auctionID \<mapsto>
             (case Endorsers w auctionID of
                None \<Rightarrow> [orgID]
              | Some orgs \<Rightarrow> if orgID \<in> set orgs then orgs else orgs @ [orgID]))\<rparr>))"

text \<open>
  Modelled from the spec: \<open>contains\<close> is in the same missing file.  The spec (4.1,
  Submit) adds the organisation "if the caller's organization is new to the auction":
  membership in the list of organisations.
\<close>

definition contains :: "string list \<Rightarrow> string \<Rightarrow> bool" where
  "contains sli str = (str \<in> set sli)"

section \<open>Queries (auctionQueries.go)\<close>

definition QueryAuction :: "Ctx \<Rightarrow> World \<Rightarrow> string \<Rightarrow> error + Auction" where
  "QueryAuction ctx w auctionID =
     (if GetStateFails ctx auctionID then Inl GetStateError
      else case PublicState w auctionID of
             None \<Rightarrow> Inl AuctionDoesNotExist
           | Some auction \<Rightarrow>
               if UnmarshalAuctionFails ctx auctionID then Inl UnmarshalError
               else Inr auction)"

definition QueryBid :: "Ctx \<Rightarrow> World \<Rightarrow> string \<Rightarrow> string \<Rightarrow> error + FullBid" where
  "QueryBid ctx w auctionID txID =
     (if \<not> verifyClientOrgMatchesPeerOrg ctx then Inl NotMemberOfOrg
      else case GetSubmittingClientIdentity ctx of
        None \<Rightarrow> Inl ClientIdentityError
      | Some clientID \<Rightarrow>
      (case getCollectionName ctx of
        None \<Rightarrow> Inl CollectionNameError
      | Some collection \<Rightarrow>
      (case NewECPrimeGroupKey ctx bidKeyType [auctionID, txID] of
        None \<Rightarrow> Inl ECKeyError
      | Some bidKey \<Rightarrow>
      (case GetPrivateData ctx w collection bidKey of
        None \<Rightarrow> Inl GetBidError
      | Some None \<Rightarrow> Inl BidDoesNotExist
      | Some (Some bidJSON) \<Rightarrow>
      (case Unmarshal ctx bidJSON of
        None \<Rightarrow> Inl UnmarshalError
      | Some bid \<Rightarrow>
          if Bidder bid \<noteq> clientID then Inl NotOwnerOfBid
          else Inr bid)))))"

text \<open>
  \<open>checkForHigherBid\<close>: the loop over the commitments, with the variable \<open>error\<close>
  of the source as the accumulator (\<open>None\<close> is \<open>nil\<close>).  An entry whose key is among the
  revealed bids is skipped.  A hidden bid of the peer's organisation is read from the
  private collection and compared with the auction's price; for a hidden bid of another
  organisation the commitment is read and must exist.
\<close>

fun checkForHigherBid_loop ::
  "Ctx \<Rightarrow> World \<Rightarrow> string \<Rightarrow> int \<Rightarrow> (string \<times> FullBid) list \<Rightarrow>
   (string \<times> BidCommitment) list \<Rightarrow> error option \<Rightarrow> error option" where
  "checkForHigherBid_loop ctx w peerMSPID auctionPrice revealedBidders [] err = err"
| "checkForHigherBid_loop ctx w peerMSPID auctionPrice revealedBidders ((bidKey, privateBid) # rest) err =
     (case map_of revealedBidders bidKey of
        Some _ \<Rightarrow> checkForHigherBid_loop ctx w peerMSPID auctionPrice revealedBidders rest err
      | None \<Rightarrow>
          let collection = ''_implicit_org_'' @ Org privateBid in
          if Org privateBid = peerMSPID then
            (case GetPrivateData ctx w collection bidKey of
               None \<Rightarrow> Some GetBidError
             | Some None \<Rightarrow> Some BidDoesNotExist
             | Some (Some bidJSON) \<Rightarrow>
             (case Unmarshal ctx bidJSON of
               None \<Rightarrow> Some UnmarshalError
             | Some bid \<Rightarrow>
                 checkForHigherBid_loop ctx w peerMSPID auctionPrice revealedBidders rest
                   (if FullBid_Price bid > auctionPrice then Some HigherBidExists else err)))
          else
            (case VectorPCommit ctx (PrivateData w) collection bidKey of
               None \<Rightarrow> Some ReadCommitmentError
             | Some None \<Rightarrow> Some CommitmentDoesNotExist
             | Some (Some _) \<Rightarrow>
                 checkForHigherBid_loop ctx w peerMSPID auctionPrice revealedBidders rest err))"

definition checkForHigherBid ::
  "Ctx \<Rightarrow> World \<Rightarrow> int \<Rightarrow> (string \<times> FullBid) list \<Rightarrow> (string \<times> BidCommitment) list \<Rightarrow> error option" where
  "checkForHigherBid ctx w auctionPrice revealedBidders bidders =
     (case PeerMSPID ctx of
        None \<Rightarrow> Some PeerMSPIDError
      | Some peerMSPID \<Rightarrow>
          checkForHigherBid_loop ctx w peerMSPID auctionPrice revealedBidders bidders None)"

section \<open>The auction operations (auction.go)\<close>

text \<open>
  Each operation takes the context and the world the stub presents and returns the world
  with the writes it has issued so far, and its result: \<open>Inl\<close> an error, \<open>Inr\<close>
  the value returned with a \<open>nil\<close> error.  Where the source names one value in two
  ways (\<open>bidHash\<close> and \<open>bidCommitment\<close> in \<open>RevealBid\<close>, \<open>Commitment\<close> and
  \<open>Hash\<close> in \<open>checkForHigherBid\<close>, the field \<open>RevealedBid\<close> and
  \<open>RevealedBids\<close>, the types \<open>BidHash\<close> and \<open>BidCommitment\<close>), the model has one.
\<close>

definition CreateAuction :: "Ctx \<Rightarrow> World \<Rightarrow> string \<Rightarrow> string \<Rightarrow> World \<times> (error + unit)" where
  "CreateAuction ctx w auctionID itemsold =
     (case GetSubmittingClientIdentity ctx of
        None \<Rightarrow> (w, Inl ClientIdentityError)
      | Some clientID \<Rightarrow>
      (case GetMSPID ctx of
        None \<Rightarrow> (w, Inl ClientIdentityError)
      | Some clientOrgID \<Rightarrow>
          let auction = \<lparr>Type = ''auction'', ItemSold = itemsold, Seller = clientID,
                         Orgs = [clientOrgID], PrivateBids = [], RevealedBids = [],
                         Winner = [], Price = 0, Status = ''open''\<rparr> in
          (case PutState ctx w auctionID auction of
             None \<Rightarrow> (w, Inl PutAuctionError)
           | Some w1 \<Rightarrow>
           (case setAssetStateBasedEndorsement ctx w1 auctionID clientOrgID of
              None \<Rightarrow> (w1, Inl EndorsementError)
            | Some w2 \<Rightarrow> (w2, Inr ())))))"

definition Bid :: "Ctx \<Rightarrow> World \<Rightarrow> string \<Rightarrow> World \<times> (error + string)" where
  "Bid ctx w auctionID =
     (case GetTransient ctx of
        None \<Rightarrow> (w, Inl TransientError)
      | Some transientMap \<Rightarrow>
      (case transientMap ''bid'' of
        None \<Rightarrow> (w, Inl BidKeyNotFound)
      | Some BidJSON \<Rightarrow>
      (case getCollectionName ctx of
        None \<Rightarrow> (w, Inl CollectionNameError)
      | Some collection \<Rightarrow>
          if \<not> verifyClientOrgMatchesPeerOrg ctx then (w, Inl NotMemberOfOrg)
          else
            let txID = GetTxID ctx in
            (case CreateCompositeKey ctx bidKeyType [auctionID, txID] of
               None \<Rightarrow> (w, Inl CompositeKeyError)
             | Some bidKey \<Rightarrow>
             (case PutPrivateData ctx w collection bidKey BidJSON of
                None \<Rightarrow> (w, Inl PutPrivateDataError)
              | Some w1 \<Rightarrow> (w1, Inr txID))))))"

text \<open>
  \<open>SubmitBid\<close>.  The commitment read by \<open>VectorPCommit\<close> is not checked for \<open>nil\<close>
  here; \<open>Sprintf\<close> prints a \<open>nil\<close> slice as it prints the empty one.
\<close>

definition SubmitBid :: "Ctx \<Rightarrow> World \<Rightarrow> string \<Rightarrow> string \<Rightarrow> World \<times> (error + unit)" where
  "SubmitBid ctx w auctionID txID =
     (case GetMSPID ctx of
        None \<Rightarrow> (w, Inl ClientIdentityError)
      | Some clientOrgID \<Rightarrow>
      (case QueryAuction ctx w auctionID of
        Inl e \<Rightarrow> (w, Inl (GetAuctionError e))
      | Inr auction \<Rightarrow>
          if Status auction \<noteq> ''open'' then (w, Inl CannotJoinAuction)
          else
            (case getCollectionName ctx of
               None \<Rightarrow> (w, Inl CollectionNameError)
             | Some collection \<Rightarrow>
             (case NewECPrimeGroupKey ctx bidKeyType [auctionID, txID] of
               None \<Rightarrow> (w, Inl ECKeyError)
             | Some bidKey \<Rightarrow>
             (case VectorPCommit ctx (PrivateData w) collection bidKey of
               None \<Rightarrow> (w, Inl ReadCommitmentError)
             | Some bidCommitment \<Rightarrow>
                 let NewCommitment = \<lparr>Org = clientOrgID,
                       Commitment = Sprintf_x ctx (case bidCommitment of None \<Rightarrow> [] | Some c \<Rightarrow> c)\<rparr>;
                     auction1 = auction\<lparr>PrivateBids :=
                       AList.update bidKey NewCommitment (PrivateBids auction)\<rparr>
                 in
                 if \<not> contains (Orgs auction) clientOrgID then
                   (case addAssetStateBasedEndorsement ctx w auctionID clientOrgID of
                      None \<Rightarrow> (w, Inl EndorsementError)
                    | Some w1 \<Rightarrow>
                    (case PutState ctx w1 auctionID
                            (auction1\<lparr>Orgs := Orgs auction @ [clientOrgID]\<rparr>) of
                       None \<Rightarrow> (w1, Inl UpdateAuctionError)
                     | Some w2 \<Rightarrow> (w2, Inr ())))
                 else
                   (case PutState ctx w auctionID auction1 of
                      None \<Rightarrow> (w, Inl UpdateAuctionError)
                    | Some w2 \<Rightarrow> (w2, Inr ())))))))"

text \<open>
  \<open>RevealBid\<close>, lines 310-356: what follows the four checks.  The revealed bid is decoded
  from the transient bytes, its bidder must be the caller, and the bid is stored in the
  auction under the bid key.
\<close>

definition RevealBid_add ::
  "Ctx \<Rightarrow> World \<Rightarrow> string \<Rightarrow> Auction \<Rightarrow> string \<Rightarrow> string \<Rightarrow> bytes \<Rightarrow> World \<times> (error + unit)" where
  "RevealBid_add ctx w auctionID auction clientID bidKey transientBidJSON =
     (case Unmarshal ctx transientBidJSON of
        None \<Rightarrow> (w, Inl UnmarshalError)
      | Some bidInput \<Rightarrow>
          let NewBid = \<lparr>FullBid_Type = bidKeyType, FullBid_Price = FullBid_Price bidInput,
                        FullBid_Org = FullBid_Org bidInput, Bidder = Bidder bidInput\<rparr> in
          if Bidder bidInput \<noteq> clientID then (w, Inl NotOwnerOfBid)
          else
            (case PutState ctx w auctionID
                    (auction\<lparr>RevealedBids := AList.update bidKey NewBid (RevealedBids auction)\<rparr>) of
               None \<Rightarrow> (w, Inl UpdateAuctionError)
             | Some w1 \<Rightarrow> (w1, Inr ())))"

text \<open>
  \<open>RevealBid\<close>, lines 217-308.  The source misses the closing brace of check 3; the
  model follows its indentation and comments, which put check 4 after check 3.  In
  check 4 (lines 304-308) the body of the \<open>if\<close> reports the failure of the range proof
  (\<open>t.Error\<close>, \<open>fmt.Printf\<close>) and has no \<open>return\<close>: both branches go on to line 310.
\<close>

definition RevealBid :: "Ctx \<Rightarrow> World \<Rightarrow> string \<Rightarrow> string \<Rightarrow> World \<times> (error + unit)" where
  "RevealBid ctx w auctionID txID =
     (case GetTransient ctx of
        None \<Rightarrow> (w, Inl TransientError)
      | Some transientMap \<Rightarrow>
      (case transientMap ''bid'' of
        None \<Rightarrow> (w, Inl BidKeyNotFound)
      | Some transientBidJSON \<Rightarrow>
      (case getCollectionName ctx of
        None \<Rightarrow> (w, Inl CollectionNameError)
      | Some collection \<Rightarrow>
      (case NewECPrimeGroupKey ctx bidKeyType [auctionID, txID] of
        None \<Rightarrow> (w, Inl ECKeyError)
      | Some bidKey \<Rightarrow>
      (case VectorPCommit ctx (PrivateData w) collection bidKey of
        None \<Rightarrow> (w, Inl ReadCommitmentError)
      | Some None \<Rightarrow> (w, Inl CommitmentDoesNotExist)
      | Some (Some bidCommitment) \<Rightarrow>
      (case QueryAuction ctx w auctionID of
        Inl e \<Rightarrow> (w, Inl (GetAuctionError e))
      | Inr auction \<Rightarrow>
      (case GetSubmittingClientIdentity ctx of
        None \<Rightarrow> (w, Inl ClientIdentityError)
      | Some clientID \<Rightarrow>
          if Seller auction \<noteq> clientID then (w, Inl OnlySellerCanReveal)
          else if Status auction \<noteq> ''closed'' then (w, Inl CannotRevealBid)
          else if Sum ctx transientBidJSON \<noteq> bidCommitment then (w, Inl LedgerCommitmentMismatch)
          else if (case map_of (PrivateBids auction) bidKey of
                     None \<Rightarrow> []
                   | Some c \<Rightarrow> Commitment c) \<noteq> Sprintf_x ctx bidCommitment
               then (w, Inl AuctionCommitmentMismatch)
          else if \<not> RPVerify ctx (RPProve ctx bidCommitment)
               then RevealBid_add ctx w auctionID auction clientID bidKey transientBidJSON
               else RevealBid_add ctx w auctionID auction clientID bidKey transientBidJSON)))))))"

definition CloseAuction :: "Ctx \<Rightarrow> World \<Rightarrow> string \<Rightarrow> World \<times> (error + unit)" where
  "CloseAuction ctx w auctionID =
     (case QueryAuction ctx w auctionID of
        Inl e \<Rightarrow> (w, Inl (GetAuctionError e))
      | Inr auction \<Rightarrow>
      (case GetSubmittingClientIdentity ctx of
        None \<Rightarrow> (w, Inl ClientIdentityError)
      | Some clientID \<Rightarrow>
          if Seller auction \<noteq> clientID then (w, Inl OnlySellerCanClose)
          else if Status auction \<noteq> ''open'' then (w, Inl CannotCloseAuction)
          else
            (case PutState ctx w auctionID (auction\<lparr>Status := ''closed''\<rparr>) of
               None \<Rightarrow> (w, Inl CloseAuctionError)
             | Some w1 \<Rightarrow> (w1, Inr ()))))"

text \<open>The loop of \<open>EndAuction\<close> over the revealed bids (lines 432-437).\<close>

fun EndAuction_loop :: "FullBid list \<Rightarrow> Auction \<Rightarrow> Auction" where
  "EndAuction_loop [] auction = auction"
| "EndAuction_loop (bid # bids) auction =
     EndAuction_loop bids
       (if FullBid_Price bid > Price auction
        then auction\<lparr>Winner := Bidder bid, Price := FullBid_Price bid\<rparr>
        else auction)"

definition EndAuction :: "Ctx \<Rightarrow> World \<Rightarrow> string \<Rightarrow> World \<times> (error + unit)" where
  "EndAuction ctx w auctionID =
     (case QueryAuction ctx w auctionID of
        Inl e \<Rightarrow> (w, Inl (GetAuctionError e))
      | Inr auction \<Rightarrow>
      (case GetSubmittingClientIdentity ctx of
        None \<Rightarrow> (w, Inl ClientIdentityError)
      | Some clientID \<Rightarrow>
          if Seller auction \<noteq> clientID then (w, Inl OnlySellerCanEnd)
          else if Status auction \<noteq> ''closed'' then (w, Inl CanOnlyEndClosed)
          else if length (RevealedBids auction) = 0 then (w, Inl NoBidsRevealed)
          else
            let auction1 = EndAuction_loop (map snd (RevealedBids auction)) auction in
            (case checkForHigherBid ctx w (Price auction1) (RevealedBids auction1)
                    (PrivateBids auction1) of
               Some e \<Rightarrow> (w, Inl (CannotEndAuction e))
             | None \<Rightarrow>
             (case PutState ctx w auctionID (auction1\<lparr>Status := ''ended''\<rparr>) of
                None \<Rightarrow> (w, Inl EndAuctionError)
              | Some w1 \<Rightarrow> (w1, Inr ())))))"

section \<open>Transactions and reachable worlds\<close>

text \<open>
  An invocation of the chaincode is one of the six operations that write.  The ledger
  runs it as a transaction (spec, section 5): the writes it issued are applied when it
  returns no error and dropped when it returns one.  A world is reachable when
  transactions lead to it from the empty ledger.
\<close>

datatype call =
    CallCreateAuction string string
  | CallBid string
  | CallSubmitBid string string
  | CallRevealBid string string
  | CallCloseAuction string
  | CallEndAuction string

fun invoke :: "Ctx \<Rightarrow> call \<Rightarrow> World \<Rightarrow> World \<times> (error + unit)" where
  "invoke ctx (CallCreateAuction auctionID itemsold) w = CreateAuction ctx w auctionID itemsold"
| "invoke ctx (CallBid auctionID) w = map_prod id (map_sum id (\<lambda>_. ())) (Bid ctx w auctionID)"
| "invoke ctx (CallSubmitBid auctionID txID) w = SubmitBid ctx w auctionID txID"
| "invoke ctx (CallRevealBid auctionID txID) w = RevealBid ctx w auctionID txID"
| "invoke ctx (CallCloseAuction auctionID) w = CloseAuction ctx w auctionID"
| "invoke ctx (CallEndAuction auctionID) w = EndAuction ctx w auctionID"

definition transaction :: "Ctx \<Rightarrow> call \<Rightarrow> World \<Rightarrow> World" where
  "transaction ctx c w =
     (case invoke ctx c w of
        (w1, Inr _) \<Rightarrow> w1
      | (w1, Inl _) \<Rightarrow> w)"

definition emptyWorld :: World where
  "emptyWorld = \<lparr>PublicState = Map.empty, PrivateData = Map.empty, Endorsers = Map.empty\<rparr>"

inductive reachable :: "World \<Rightarrow> bool" where
  reachable_empty: "reachable emptyWorld"
| reachable_step: "reachable w \<Longrightarrow> reachable (transaction ctx c w)"
| reachable_reorder:
    "reachable w \<Longrightarrow> PublicState w auctionID = Some a \<Longrightarrow>
     mset bidders = mset (PrivateBids a) \<Longrightarrow> mset revealed = mset (RevealedBids a) \<Longrightarrow>
     reachable (w\<lparr>PublicState := (PublicState w)(auctionID \<mapsto>
                   a\<lparr>PrivateBids := bidders, RevealedBids := revealed\<rparr>)\<rparr>)"

text \<open>
  The third rule is the unspecified iteration order of a Go map: a stored map may present
  its entries in any order.
\<close>

section \<open>Sample inputs\<close>

text \<open>
  Concrete contexts and worlds at which the theorems below are evaluated.  The sample
  platform derives a key by concatenation, takes the stored bytes themselves as their
  commitment and hash, prints bytes as they are, decodes a few fixed payloads, and has
  a range proof that never verifies.  The peer belongs to \<open>Org1MSP\<close>.
\<close>

definition sampleBid :: "int \<Rightarrow> string \<Rightarrow> FullBid" where
  "sampleBid p who =
     \<lparr>FullBid_Type = ''bid'', FullBid_Price = p, FullBid_Org = ''Org1MSP'', Bidder = who\<rparr>"

definition sampleUnmarshal :: "bytes \<Rightarrow> FullBid option" where
  "sampleUnmarshal =
     map_of [(''alice:0'', sampleBid 0 ''alice''),
             (''alice:100'', sampleBid 100 ''alice''),
             (''alice:-5'', sampleBid (- 5) ''alice''),
             (''bob:-1'', sampleBid (- 1) ''bob''),
             (''bob:200'', sampleBid 200 ''bob'')]"

definition sampleCtx :: "string \<Rightarrow> string \<Rightarrow> string \<Rightarrow> (string \<rightharpoonup> bytes) \<Rightarrow> Ctx" where
  "sampleCtx clientID orgID txID transientMap =
     \<lparr>GetSubmittingClientIdentity = Some clientID,
      GetMSPID = Some orgID,
      PeerMSPID = Some ''Org1MSP'',
      GetTransient = Some transientMap,
      GetTxID = txID,
      getCollectionName = Some (''_implicit_org_'' @ orgID),
      verifyClientOrgMatchesPeerOrg = (orgID = ''Org1MSP''),
      CreateCompositeKey = (\<lambda>objectType attributes. Some (concat (objectType # attributes))),
      NewECPrimeGroupKey = (\<lambda>objectType attributes. Some (concat (objectType # attributes))),
      VectorPCommit = (\<lambda>store collection key. Some (store (collection, key))),
      Sum = (\<lambda>b. b),
      Sprintf_x = (\<lambda>b. b),
      RPProve = (\<lambda>b. b),
      RPVerify = (\<lambda>_. False),
      Unmarshal = sampleUnmarshal,
      GetStateFails = (\<lambda>_. False),
      UnmarshalAuctionFails = (\<lambda>_. False),
      PutStateFails = (\<lambda>_. False),
      GetPrivateDataFails = (\<lambda>_ _. False),
      PutPrivateDataFails = (\<lambda>_ _. False),
      EndorsementFails = (\<lambda>_. False)\<rparr>"

definition sampleAuction ::
  "string \<Rightarrow> (string \<times> BidCommitment) list \<Rightarrow> (string \<times> FullBid) list \<Rightarrow> Auction" where
  "sampleAuction status bidders revealed =
     \<lparr>Type = ''auction'', ItemSold = ''widget'', Seller = ''alice'', Orgs = [''Org1MSP''],
      PrivateBids = bidders, RevealedBids = revealed, Winner = [], Price = 0,
      Status = status\<rparr>"

definition sampleWorld :: "Auction \<Rightarrow> (string \<times> string \<rightharpoonup> bytes) \<Rightarrow> World" where
  "sampleWorld auction store =
     \<lparr>PublicState = [''A1'' \<mapsto> auction], PrivateData = store,
      Endorsers = [''A1'' \<mapsto> [''Org1MSP'']]\<rparr>"

definition sampleStore :: "bytes \<Rightarrow> (string \<times> string \<rightharpoonup> bytes)" where
  "sampleStore j = [(''_implicit_org_Org1MSP'', ''bidA1tx1'') \<mapsto> j]"

definition sampleCommitments :: "bytes \<Rightarrow> (string \<times> BidCommitment) list" where
  "sampleCommitments j = [(''bidA1tx1'', \<lparr>Org = ''Org1MSP'', Commitment = j\<rparr>)]"

section \<open>The loop over the revealed bids\<close>

lemma EndAuction_loop_shape:
  "\<exists>winner price. EndAuction_loop bids a = a\<lparr>Winner := winner, Price := price\<rparr>"
proof (induction bids arbitrary: a)
  case Nil
  have "a = a\<lparr>Winner := Winner a, Price := Price a\<rparr>" by simp
  then show ?case by (metis EndAuction_loop.simps(1))
next
  case (Cons x xs)
  show ?case
  proof (cases "FullBid_Price x > Price a")
    case True
    obtain wn pr where "EndAuction_loop xs (a\<lparr>Winner := Bidder x, Price := FullBid_Price x\<rparr>)
        = a\<lparr>Winner := Bidder x, Price := FullBid_Price x\<rparr>\<lparr>Winner := wn, Price := pr\<rparr>"
      using Cons.IH by blast
    then show ?thesis using True by auto
  next
    case False
    then show ?thesis using Cons.IH[of a] by simp
  qed
qed

lemma EndAuction_loop_frame:
  "EndAuction_loop bids a =
     a\<lparr>Winner := Winner (EndAuction_loop bids a), Price := Price (EndAuction_loop bids a)\<rparr>"
proof -
  obtain wn pr where e: "EndAuction_loop bids a = a\<lparr>Winner := wn, Price := pr\<rparr>"
    using EndAuction_loop_shape by blast
  show ?thesis by (simp add: e)
qed

lemma EndAuction_loop_noop:
  "\<forall>b\<in>set bids. FullBid_Price b \<le> Price a \<Longrightarrow> EndAuction_loop bids a = a"
  by (induction bids arbitrary: a) auto

lemma EndAuction_loop_first_max:
  "Price a < m \<Longrightarrow> \<forall>b\<in>set bids. FullBid_Price b \<le> m \<Longrightarrow>
   find (\<lambda>b. FullBid_Price b = m) bids = Some b \<Longrightarrow>
   Winner (EndAuction_loop bids a) = Bidder b \<and> Price (EndAuction_loop bids a) = m"
proof (induction bids arbitrary: a)
  case Nil
  then show ?case by simp
next
  case (Cons x xs)
  show ?case
  proof (cases "FullBid_Price x = m")
    case True
    then have "x = b" using Cons.prems(3) by simp
    moreover have "EndAuction_loop xs (a\<lparr>Winner := Bidder x, Price := m\<rparr>) = a\<lparr>Winner := Bidder x, Price := m\<rparr>"
      using Cons.prems(2) by (intro EndAuction_loop_noop) simp
    ultimately show ?thesis using True Cons.prems(1) by simp
  next
    case False
    then have lt: "FullBid_Price x < m" using Cons.prems(2) by (simp add: order_less_le)
    have f: "find (\<lambda>b. FullBid_Price b = m) xs = Some b" using Cons.prems(3) False by simp
    have all: "\<forall>b\<in>set xs. FullBid_Price b \<le> m" using Cons.prems(2) by simp
    show ?thesis
    proof (cases "FullBid_Price x > Price a")
      case True
      then show ?thesis using Cons.IH[of "a\<lparr>Winner := Bidder x, Price := FullBid_Price x\<rparr>"] lt f all by simp
    next
      case False
      then show ?thesis using Cons.IH[of a] Cons.prems(1) f all by simp
    qed
  qed
qed



section \<open>What a successful operation writes\<close>

text \<open>
  For each operation that returns no error: a document of the public state after it is
  the document that was there before, or is related to it as stated.
\<close>

lemma in_set_update:
  "(k', v') \<in> set (AList.update k v al) \<Longrightarrow> (k', v') = (k, v) \<or> (k', v') \<in> set al"
  by (induction al) (auto split: if_splits)

lemma CreateAuction_success:
  "CreateAuction ctx w auctionID itemsold = (w', Inr u) \<Longrightarrow> PublicState w' k = Some a' \<Longrightarrow>
   PublicState w k = Some a' \<or>
   (k = auctionID \<and> RevealedBids a' = [] \<and> PrivateBids a' = [] \<and> Winner a' = [] \<and> Price a' = 0 \<and>
    Status a' = ''open'')"
  by (auto simp: CreateAuction_def PutState_def setAssetStateBasedEndorsement_def Let_def
      split: option.splits if_splits)

lemma Bid_success:
  "Bid ctx w auctionID = (w', Inr u) \<Longrightarrow> PublicState w' = PublicState w"
  by (auto simp: Bid_def PutPrivateData_def Let_def split: option.splits if_splits)

lemma SubmitBid_success:
  "SubmitBid ctx w auctionID txID = (w', Inr u) \<Longrightarrow> PublicState w' k = Some a' \<Longrightarrow>
   PublicState w k = Some a' \<or>
   (\<exists>a. PublicState w k = Some a \<and> Status a = ''open'' \<and>
        a' = a\<lparr>Orgs := Orgs a', PrivateBids := PrivateBids a'\<rparr>)"
  apply (simp add: SubmitBid_def QueryAuction_def Let_def split: option.splits if_splits sum.splits)
  apply (auto simp: PutState_def addAssetStateBasedEndorsement_def split: option.splits if_splits)
  done

lemma CloseAuction_success:
  "CloseAuction ctx w auctionID = (w', Inr u) \<Longrightarrow> PublicState w' k = Some a' \<Longrightarrow>
   PublicState w k = Some a' \<or>
   (\<exists>a. PublicState w k = Some a \<and> Status a = ''open'' \<and> a' = a\<lparr>Status := ''closed''\<rparr>)"
  by (auto simp: CloseAuction_def QueryAuction_def PutState_def
      split: option.splits if_splits sum.splits)

lemma RevealBid_add_success:
  "RevealBid_add ctx w auctionID a clientID bidKey j = (w', Inr u) \<Longrightarrow>
   PublicState w' k = Some a' \<Longrightarrow>
   PublicState w k = Some a' \<or>
   (k = auctionID \<and> a' = a\<lparr>RevealedBids := RevealedBids a'\<rparr> \<and>
    (\<forall>e\<in>set (RevealedBids a'). e \<in> set (RevealedBids a) \<or> Bidder (snd e) = clientID))"
  by (auto simp: RevealBid_add_def PutState_def Let_def split: option.splits if_splits
      dest!: in_set_update)

lemma RevealBid_success:
  "RevealBid ctx w auctionID txID = (w', Inr u) \<Longrightarrow> PublicState w' k = Some a' \<Longrightarrow>
   PublicState w k = Some a' \<or>
   (\<exists>a. PublicState w k = Some a \<and> Status a = ''closed'' \<and>
        a' = a\<lparr>RevealedBids := RevealedBids a'\<rparr> \<and>
        (\<forall>e\<in>set (RevealedBids a'). e \<in> set (RevealedBids a) \<or> Bidder (snd e) = Seller a))"
  apply (simp add: RevealBid_def QueryAuction_def split: option.splits if_splits sum.splits)
  apply (auto dest!: RevealBid_add_success)
  done

lemma EndAuction_success:
  "EndAuction ctx w auctionID = (w', Inr u) \<Longrightarrow> PublicState w' k = Some a' \<Longrightarrow>
   PublicState w k = Some a' \<or>
   (\<exists>a. PublicState w k = Some a \<and> Status a = ''closed'' \<and>
        a' = a\<lparr>Winner := Winner a', Price := Price a', Status := ''ended''\<rparr>)"
proof -
  assume e: "EndAuction ctx w auctionID = (w', Inr u)" and k: "PublicState w' k = Some a'"
  from e obtain a where a: "PublicState w auctionID = Some a" "Status a = ''closed''"
    and w': "PublicState w' = (PublicState w)(auctionID \<mapsto>
        (EndAuction_loop (map snd (RevealedBids a)) a)\<lparr>Status := ''ended''\<rparr>)"
    by (auto simp: EndAuction_def QueryAuction_def PutState_def Let_def
      split: option.splits if_splits sum.splits)
  obtain wn pr where "EndAuction_loop (map snd (RevealedBids a)) a = a\<lparr>Winner := wn, Price := pr\<rparr>"
    using EndAuction_loop_shape by blast
  then show ?thesis using a w' k by (auto split: if_splits)
qed

section \<open>Transactions and invariants of the reachable worlds\<close>

text \<open>
  A document of the public state after a transaction is the document before it, a fresh
  open auction (\<open>CreateAuction\<close>), or the earlier document changed by \<open>SubmitBid\<close>,
  \<open>CloseAuction\<close>, \<open>RevealBid\<close> or \<open>EndAuction\<close>.
\<close>

lemma transaction_document:
  assumes "PublicState (transaction ctx c w) k = Some a'"
  shows "PublicState w k = Some a' \<or>
    ((\<exists>itemsold. c = CallCreateAuction k itemsold) \<and>
       RevealedBids a' = [] \<and> PrivateBids a' = [] \<and> Winner a' = [] \<and> Price a' = 0 \<and>
       Status a' = ''open'') \<or>
    (\<exists>a orgs bidders. PublicState w k = Some a \<and> Status a = ''open'' \<and>
       a' = a\<lparr>Orgs := orgs, PrivateBids := bidders\<rparr>) \<or>
    (\<exists>a. PublicState w k = Some a \<and> Status a = ''open'' \<and> a' = a\<lparr>Status := ''closed''\<rparr>) \<or>
    (\<exists>a revealed. PublicState w k = Some a \<and> Status a = ''closed'' \<and>
       a' = a\<lparr>RevealedBids := revealed\<rparr> \<and>
       (\<forall>e\<in>set revealed. e \<in> set (RevealedBids a) \<or> Bidder (snd e) = Seller a)) \<or>
    (\<exists>a winner price. PublicState w k = Some a \<and> Status a = ''closed'' \<and>
       a' = a\<lparr>Winner := winner, Price := price, Status := ''ended''\<rparr>)"
proof (cases "invoke ctx c w")
  case (Pair w1 r)
  show ?thesis
  proof (cases r)
    case (Inl e)
    then show ?thesis using assms Pair by (simp add: transaction_def)
  next
    case (Inr u)
    then have t: "transaction ctx c w = w1" using Pair by (simp add: transaction_def)
    have k: "PublicState w1 k = Some a'" using assms t by simp
    show ?thesis
    proof (cases c)
      case (CallCreateAuction auctionID itemsold)
      then have "CreateAuction ctx w auctionID itemsold = (w1, Inr u)" using Pair Inr by simp
      from CreateAuction_success[OF this k] CallCreateAuction show ?thesis by blast
    next
      case (CallBid auctionID)
      then obtain r' where "Bid ctx w auctionID = (w1, Inr r')"
        using Pair Inr by (cases "Bid ctx w auctionID"; cases "snd (Bid ctx w auctionID)") auto
      then show ?thesis using k Bid_success by metis
    next
      case (CallSubmitBid auctionID txID)
      then have "SubmitBid ctx w auctionID txID = (w1, Inr u)" using Pair Inr by simp
      from SubmitBid_success[OF this k] show ?thesis by blast
    next
      case (CallRevealBid auctionID txID)
      then have "RevealBid ctx w auctionID txID = (w1, Inr u)" using Pair Inr by simp
      from RevealBid_success[OF this k] show ?thesis by blast
    next
      case (CallCloseAuction auctionID)
      then have "CloseAuction ctx w auctionID = (w1, Inr u)" using Pair Inr by simp
      from CloseAuction_success[OF this k] show ?thesis by blast
    next
      case (CallEndAuction auctionID)
      then have "EndAuction ctx w auctionID = (w1, Inr u)" using Pair Inr by simp
      from EndAuction_success[OF this k] show ?thesis by blast
    qed
  qed
qed

lemma reachable_bidder_is_seller:
  "reachable w \<Longrightarrow> PublicState w k = Some a \<Longrightarrow>
   \<forall>e\<in>set (RevealedBids a). Bidder (snd e) = Seller a"
proof (induction arbitrary: k a rule: reachable.induct)
  case reachable_empty
  then show ?case by (simp add: emptyWorld_def)
next
  case (reachable_step w ctx c)
  from transaction_document[OF reachable_step.prems(1)]
  show ?case
    using reachable_step.IH
    by (elim disjE exE conjE) auto
next
  case (reachable_reorder w auctionID a0 bidders revealed)
  show ?case
  proof (cases "k = auctionID")
    case True
    then have "a = a0\<lparr>PrivateBids := bidders, RevealedBids := revealed\<rparr>"
      using reachable_reorder.prems(1) by simp
    moreover have "set revealed = set (RevealedBids a0)"
      using reachable_reorder.hyps(4) by (rule mset_eq_setD)
    ultimately show ?thesis
      using reachable_reorder.IH[OF reachable_reorder.hyps(2)] by simp
  next
    case False
    then show ?thesis using reachable_reorder.IH[of k a] reachable_reorder.prems by simp
  qed
qed

lemma reachable_unended:
  "reachable w \<Longrightarrow> PublicState w k = Some a \<Longrightarrow> Status a \<noteq> ''ended'' \<Longrightarrow>
   Price a = 0 \<and> Winner a = []"
proof (induction arbitrary: k a rule: reachable.induct)
  case reachable_empty
  then show ?case by (simp add: emptyWorld_def)
next
  case (reachable_step w ctx c)
  from transaction_document[OF reachable_step.prems(1)]
  show ?case
    using reachable_step.IH reachable_step.prems(2)
    by (elim disjE exE conjE) auto
next
  case (reachable_reorder w auctionID a0 bidders revealed)
  show ?case
  proof (cases "k = auctionID")
    case True
    then have "a = a0\<lparr>PrivateBids := bidders, RevealedBids := revealed\<rparr>"
      using reachable_reorder.prems(1) by simp
    then show ?thesis
      using reachable_reorder.IH[OF reachable_reorder.hyps(2)] reachable_reorder.prems(2) by simp
  next
    case False
    then show ?thesis using reachable_reorder.IH[of k a] reachable_reorder.prems by simp
  qed
qed

section \<open>The sample scenario\<close>

text \<open>
  The seller \<open>alice\<close> creates auction \<open>A1\<close>, stores a bid, submits its commitment,
  closes the auction, reveals the bid and ends the auction; then \<open>mallory\<close> calls
  \<open>CreateAuction\<close> with the same auction id.
\<close>

lemmas sample_defs = sampleCtx_def sampleWorld_def sampleAuction_def sampleStore_def
  sampleCommitments_def sampleBid_def bidKeyType_def

lemma sample_create:
  "transaction (sampleCtx ''alice'' ''Org1MSP'' ''tx0'' Map.empty)
     (CallCreateAuction ''A1'' ''widget'') emptyWorld =
   sampleWorld (sampleAuction ''open'' [] []) Map.empty"
  by (simp add: transaction_def CreateAuction_def PutState_def setAssetStateBasedEndorsement_def
      emptyWorld_def sample_defs)

lemma sample_bid:
  "transaction (sampleCtx ''alice'' ''Org1MSP'' ''tx1'' [''bid'' \<mapsto> j]) (CallBid ''A1'')
     (sampleWorld (sampleAuction ''open'' [] []) Map.empty) =
   sampleWorld (sampleAuction ''open'' [] []) (sampleStore j)"
  by (simp add: transaction_def Bid_def PutPrivateData_def Let_def sample_defs)

lemma sample_submit:
  "transaction (sampleCtx ''alice'' ''Org1MSP'' ''tx2'' Map.empty) (CallSubmitBid ''A1'' ''tx1'')
     (sampleWorld (sampleAuction ''open'' [] []) (sampleStore j)) =
   sampleWorld (sampleAuction ''open'' (sampleCommitments j) []) (sampleStore j)"
  by (simp add: transaction_def SubmitBid_def QueryAuction_def PutState_def contains_def
      sample_defs)

lemma sample_close:
  "transaction (sampleCtx ''alice'' ''Org1MSP'' ''tx3'' Map.empty) (CallCloseAuction ''A1'')
     (sampleWorld (sampleAuction ''open'' (sampleCommitments j) []) (sampleStore j)) =
   sampleWorld (sampleAuction ''closed'' (sampleCommitments j) []) (sampleStore j)"
  by (simp add: transaction_def CloseAuction_def QueryAuction_def PutState_def sample_defs)

lemma sample_reveal_code:
  "sampleUnmarshal j = Some (sampleBid p ''alice'') \<Longrightarrow>
   RevealBid (sampleCtx ''alice'' ''Org1MSP'' ''tx4'' [''bid'' \<mapsto> j])
     (sampleWorld (sampleAuction ''closed'' (sampleCommitments j) []) (sampleStore j)) ''A1'' ''tx1'' =
   (sampleWorld (sampleAuction ''closed'' (sampleCommitments j) [(''bidA1tx1'', sampleBid p ''alice'')])
     (sampleStore j), Inr ())"
  by (simp add: RevealBid_def RevealBid_add_def QueryAuction_def PutState_def sample_defs)

lemma sample_reveal:
  "sampleUnmarshal j = Some (sampleBid p ''alice'') \<Longrightarrow>
   transaction (sampleCtx ''alice'' ''Org1MSP'' ''tx4'' [''bid'' \<mapsto> j]) (CallRevealBid ''A1'' ''tx1'')
     (sampleWorld (sampleAuction ''closed'' (sampleCommitments j) []) (sampleStore j)) =
   sampleWorld (sampleAuction ''closed'' (sampleCommitments j) [(''bidA1tx1'', sampleBid p ''alice'')])
     (sampleStore j)"
  by (simp add: transaction_def sample_reveal_code)

lemma sample_revealed_reachable:
  assumes "sampleUnmarshal j = Some (sampleBid p ''alice'')"
  shows "reachable (sampleWorld (sampleAuction ''closed'' (sampleCommitments j)
           [(''bidA1tx1'', sampleBid p ''alice'')]) (sampleStore j))"
proof -
  have "reachable (sampleWorld (sampleAuction ''open'' [] []) Map.empty)"
    using reachable_step[OF reachable_empty] sample_create by metis
  then have "reachable (sampleWorld (sampleAuction ''open'' [] []) (sampleStore j))"
    using reachable_step sample_bid by metis
  then have "reachable (sampleWorld (sampleAuction ''open'' (sampleCommitments j) []) (sampleStore j))"
    using reachable_step sample_submit by metis
  then have "reachable (sampleWorld (sampleAuction ''closed'' (sampleCommitments j) []) (sampleStore j))"
    using reachable_step sample_close by metis
  then show ?thesis
    using reachable_step sample_reveal[OF assms] by metis
qed

lemma sample_end:
  "transaction (sampleCtx ''alice'' ''Org1MSP'' ''tx5'' Map.empty) (CallEndAuction ''A1'')
     (sampleWorld (sampleAuction ''closed'' (sampleCommitments j) [(''bidA1tx1'', sampleBid 100 ''alice'')])
        (sampleStore j)) =
   sampleWorld ((sampleAuction ''ended'' (sampleCommitments j) [(''bidA1tx1'', sampleBid 100 ''alice'')])
        \<lparr>Winner := ''alice'', Price := 100\<rparr>) (sampleStore j)"
  by (simp add: transaction_def EndAuction_def QueryAuction_def PutState_def checkForHigherBid_def
      sample_defs)

lemma sample_recreate:
  "PublicState (transaction (sampleCtx ''mallory'' ''Org2MSP'' ''tx6'' Map.empty)
     (CallCreateAuction ''A1'' ''gadget'')
     (sampleWorld ((sampleAuction ''ended'' (sampleCommitments j) [(''bidA1tx1'', sampleBid 100 ''alice'')])
        \<lparr>Winner := ''alice'', Price := 100\<rparr>) (sampleStore j))) ''A1'' =
   Some \<lparr>Type = ''auction'', ItemSold = ''gadget'', Seller = ''mallory'', Orgs = [''Org2MSP''],
      PrivateBids = [], RevealedBids = [], Winner = [], Price = 0, Status = ''open''\<rparr>"
  by (simp add: transaction_def CreateAuction_def PutState_def setAssetStateBasedEndorsement_def
      sample_defs)

section \<open>Ending an auction\<close>

text \<open>
  Once the caller is the seller, the auction is closed and some bid is revealed,
  \<open>EndAuction\<close> is decided by \<open>checkForHigherBid\<close> at the price the loop leaves and
  by the final write.
\<close>

lemma QueryAuction_Inr:
  "QueryAuction ctx w auctionID = Inr a \<Longrightarrow> PublicState w auctionID = Some a"
  by (auto simp: QueryAuction_def split: option.splits if_splits)

lemma EndAuction_run:
  assumes "QueryAuction ctx w auctionID = Inr a"
    "GetSubmittingClientIdentity ctx = Some (Seller a)" "Status a = ''closed''"
    "RevealedBids a \<noteq> []"
  shows "EndAuction ctx w auctionID =
     (case checkForHigherBid ctx w (Price (EndAuction_loop (map snd (RevealedBids a)) a))
             (RevealedBids a) (PrivateBids a) of
        Some e \<Rightarrow> (w, Inl (CannotEndAuction e))
      | None \<Rightarrow>
          if PutStateFails ctx auctionID then (w, Inl EndAuctionError)
          else (w\<lparr>PublicState := (PublicState w)(auctionID \<mapsto>
                   (EndAuction_loop (map snd (RevealedBids a)) a)\<lparr>Status := ''ended''\<rparr>)\<rparr>, Inr ()))"
proof -
  obtain wn pr where l: "EndAuction_loop (map snd (RevealedBids a)) a = a\<lparr>Winner := wn, Price := pr\<rparr>"
    using EndAuction_loop_shape by blast
  show ?thesis
    using assms
    by (simp add: EndAuction_def PutState_def Let_def l split: option.splits)
qed




section \<open>Revealed bids\<close>

text \<open>
  C9.  In every reachable world, every bid in the revealed bids of an auction has the
  auction's seller as its bidder: \<open>RevealBid\<close> stores a bid only when the caller is
  the seller and the bidder of the decoded payload is the caller, and no operation
  changes the seller of a stored auction.
\<close>

theorem revealed_bidder_is_seller:
  "reachable w \<Longrightarrow> PublicState w auctionID = Some a \<Longrightarrow>
   (bidKey, bid) \<in> set (RevealedBids a) \<Longrightarrow> Bidder bid = Seller a"
  using reachable_bidder_is_seller by fastforce

theorem revealed_bidder_is_seller_witness:
  "reachable (sampleWorld (sampleAuction ''closed'' (sampleCommitments ''alice:100'')
       [(''bidA1tx1'', sampleBid 100 ''alice'')]) (sampleStore ''alice:100'')) \<and>
   PublicState (sampleWorld (sampleAuction ''closed'' (sampleCommitments ''alice:100'')
       [(''bidA1tx1'', sampleBid 100 ''alice'')]) (sampleStore ''alice:100'')) ''A1'' =
     Some (sampleAuction ''closed'' (sampleCommitments ''alice:100'')
       [(''bidA1tx1'', sampleBid 100 ''alice'')]) \<and>
   (''bidA1tx1'', sampleBid 100 ''alice'') \<in> set (RevealedBids (sampleAuction ''closed''
       (sampleCommitments ''alice:100'') [(''bidA1tx1'', sampleBid 100 ''alice'')])) \<and>
   Bidder (sampleBid 100 ''alice'') =
     Seller (sampleAuction ''closed'' (sampleCommitments ''alice:100'')
       [(''bidA1tx1'', sampleBid 100 ''alice'')])"
proof -
  let ?a = "sampleAuction ''closed'' (sampleCommitments ''alice:100'')
       [(''bidA1tx1'', sampleBid 100 ''alice'')]"
  let ?w = "sampleWorld ?a (sampleStore ''alice:100'')"
  have r: "reachable ?w"
    by (rule sample_revealed_reachable) (simp add: sampleUnmarshal_def)
  have p: "PublicState ?w ''A1'' = Some ?a"
    by (simp add: sampleWorld_def)
  have m: "(''bidA1tx1'', sampleBid 100 ''alice'') \<in> set (RevealedBids ?a)"
    by (simp add: sampleAuction_def)
  from revealed_bidder_is_seller[OF r p m] r p m show ?thesis by simp
qed

section \<open>The winner\<close>

text \<open>
  C1, as the code has it.  For a closed auction with revealed bids whose highest price is
  above the stored price (which is 0 in every reachable closed auction, see
  \<open>reachable_unended\<close>), when no error comes from \<open>checkForHigherBid\<close> and the
  write succeeds, \<open>EndAuction\<close> called by the seller stores the auction with status
  \<open>ended\<close>, the highest revealed price as its price, and as its winner the bidder of the
  first bid, in the order of the loop, that has this price.
\<close>

theorem EndAuction_selects_highest_bid:
  assumes "QueryAuction ctx w auctionID = Inr a"
    and "GetSubmittingClientIdentity ctx = Some (Seller a)" and "Status a = ''closed''"
    and "RevealedBids a \<noteq> []"
    and "Price a < Max (FullBid_Price ` snd ` set (RevealedBids a))"
    and "checkForHigherBid ctx w (Max (FullBid_Price ` snd ` set (RevealedBids a)))
           (RevealedBids a) (PrivateBids a) = None"
    and "\<not> PutStateFails ctx auctionID"
  shows "\<exists>bid. find (\<lambda>b. FullBid_Price b = Max (FullBid_Price ` snd ` set (RevealedBids a)))
                 (map snd (RevealedBids a)) = Some bid \<and>
     EndAuction ctx w auctionID =
       (w\<lparr>PublicState := (PublicState w)(auctionID \<mapsto>
            a\<lparr>Winner := Bidder bid, Price := Max (FullBid_Price ` snd ` set (RevealedBids a)),
              Status := ''ended''\<rparr>)\<rparr>, Inr ())"
proof -
  let ?bids = "map snd (RevealedBids a)"
  let ?m = "Max (FullBid_Price ` snd ` set (RevealedBids a))"
  have s: "FullBid_Price ` snd ` set (RevealedBids a) = FullBid_Price ` set ?bids" by simp
  have ne: "FullBid_Price ` set ?bids \<noteq> {}" using assms(4) by simp
  have "?m \<in> FullBid_Price ` set ?bids" unfolding s using ne by (intro Max_in) simp
  then have "\<exists>b\<in>set ?bids. FullBid_Price b = ?m" by force
  then obtain bid where f: "find (\<lambda>b. FullBid_Price b = ?m) ?bids = Some bid"
    by (cases "find (\<lambda>b. FullBid_Price b = ?m) ?bids") (auto simp: find_None_iff)
  have le: "\<forall>b\<in>set ?bids. FullBid_Price b \<le> ?m" unfolding s by simp
  have wp: "Winner (EndAuction_loop ?bids a) = Bidder bid \<and> Price (EndAuction_loop ?bids a) = ?m"
    by (rule EndAuction_loop_first_max[OF assms(5) le f])
  have l: "EndAuction_loop ?bids a = a\<lparr>Winner := Bidder bid, Price := ?m\<rparr>"
    using EndAuction_loop_frame[of ?bids a] wp by simp
  have "EndAuction ctx w auctionID =
       (w\<lparr>PublicState := (PublicState w)(auctionID \<mapsto>
            a\<lparr>Winner := Bidder bid, Price := ?m, Status := ''ended''\<rparr>)\<rparr>, Inr ())"
    using EndAuction_run[OF assms(1-4)] assms(6,7) wp by (simp add: l)
  then show ?thesis using f by blast
qed

theorem EndAuction_selects_highest_bid_witness:
  "EndAuction (sampleCtx ''alice'' ''Org1MSP'' ''tx9'' Map.empty)
     (sampleWorld (sampleAuction ''closed''
        [(''k1'', \<lparr>Org = ''Org2MSP'', Commitment = ''c1''\<rparr>),
         (''k2'', \<lparr>Org = ''Org2MSP'', Commitment = ''c2''\<rparr>),
         (''k3'', \<lparr>Org = ''Org1MSP'', Commitment = ''c3''\<rparr>)]
        [(''k1'', sampleBid 100 ''bob''), (''k2'', sampleBid 150 ''carol''),
         (''k3'', sampleBid 150 ''dave'')]) Map.empty) ''A1'' =
   (sampleWorld ((sampleAuction ''ended''
        [(''k1'', \<lparr>Org = ''Org2MSP'', Commitment = ''c1''\<rparr>),
         (''k2'', \<lparr>Org = ''Org2MSP'', Commitment = ''c2''\<rparr>),
         (''k3'', \<lparr>Org = ''Org1MSP'', Commitment = ''c3''\<rparr>)]
        [(''k1'', sampleBid 100 ''bob''), (''k2'', sampleBid 150 ''carol''),
         (''k3'', sampleBid 150 ''dave'')])\<lparr>Winner := ''carol'', Price := 150\<rparr>) Map.empty, Inr ())"
proof -
  let ?ctx = "sampleCtx ''alice'' ''Org1MSP'' ''tx9'' Map.empty"
  let ?a = "sampleAuction ''closed''
        [(''k1'', \<lparr>Org = ''Org2MSP'', Commitment = ''c1''\<rparr>),
         (''k2'', \<lparr>Org = ''Org2MSP'', Commitment = ''c2''\<rparr>),
         (''k3'', \<lparr>Org = ''Org1MSP'', Commitment = ''c3''\<rparr>)]
        [(''k1'', sampleBid 100 ''bob''), (''k2'', sampleBid 150 ''carol''),
         (''k3'', sampleBid 150 ''dave'')]"
  let ?w = "sampleWorld ?a Map.empty"
  have m: "Max (FullBid_Price ` snd ` set (RevealedBids ?a)) = 150"
    by (simp add: sampleAuction_def sampleBid_def)
  have h1: "QueryAuction ?ctx ?w ''A1'' = Inr ?a"
    by (simp add: QueryAuction_def sampleCtx_def sampleWorld_def)
  have h3: "GetSubmittingClientIdentity ?ctx = Some (Seller ?a)"
    by (simp add: sampleCtx_def sampleAuction_def)
  have h4: "Status ?a = ''closed''" by (simp add: sampleAuction_def)
  have h5: "RevealedBids ?a \<noteq> []" by (simp add: sampleAuction_def)
  have h6: "Price ?a < Max (FullBid_Price ` snd ` set (RevealedBids ?a))"
    unfolding m by (simp add: sampleAuction_def)
  have h7: "checkForHigherBid ?ctx ?w (Max (FullBid_Price ` snd ` set (RevealedBids ?a)))
           (RevealedBids ?a) (PrivateBids ?a) = None"
    unfolding m by (simp add: checkForHigherBid_def sampleCtx_def sampleAuction_def)
  have h8: "\<not> PutStateFails ?ctx ''A1''" by (simp add: sampleCtx_def)
  from EndAuction_selects_highest_bid[OF h1 h3 h4 h5 h6 h7 h8]
  show ?thesis
    unfolding m by (simp add: sampleAuction_def sampleBid_def sampleWorld_def)
qed

text \<open>
  C1 as stated fails where the highest revealed price is not above the stored price: with
  one revealed bid of price 0, in a world the sample scenario reaches, \<open>EndAuction\<close>
  succeeds and the winner it stores is the empty string, not the bidder.
\<close>

theorem EndAuction_zero_bid_counterexample:
  "reachable (sampleWorld (sampleAuction ''closed'' (sampleCommitments ''alice:0'')
       [(''bidA1tx1'', sampleBid 0 ''alice'')]) (sampleStore ''alice:0'')) \<and>
   EndAuction (sampleCtx ''alice'' ''Org1MSP'' ''tx5'' Map.empty)
     (sampleWorld (sampleAuction ''closed'' (sampleCommitments ''alice:0'')
       [(''bidA1tx1'', sampleBid 0 ''alice'')]) (sampleStore ''alice:0'')) ''A1'' =
   (sampleWorld (sampleAuction ''ended'' (sampleCommitments ''alice:0'')
       [(''bidA1tx1'', sampleBid 0 ''alice'')]) (sampleStore ''alice:0''), Inr ()) \<and>
   Winner (sampleAuction ''ended'' (sampleCommitments ''alice:0'')
       [(''bidA1tx1'', sampleBid 0 ''alice'')]) \<noteq> Bidder (sampleBid 0 ''alice'')"
proof -
  have "reachable (sampleWorld (sampleAuction ''closed'' (sampleCommitments ''alice:0'')
       [(''bidA1tx1'', sampleBid 0 ''alice'')]) (sampleStore ''alice:0''))"
    by (rule sample_revealed_reachable) (simp add: sampleUnmarshal_def)
  then show ?thesis
    by (simp add: EndAuction_def QueryAuction_def PutState_def checkForHigherBid_def sample_defs)
qed

text \<open>
  C10, as the code has it.  In a reachable world, when every revealed bid of a closed
  auction has a price of 0 or less, the loop of \<open>EndAuction\<close> changes neither winner
  nor price, and \<open>EndAuction\<close> called by the seller is decided by
  \<open>checkForHigherBid\<close> at price 0 and by the final write: an error of
  \<open>checkForHigherBid\<close> or of the write is returned with the world unchanged; otherwise
  the auction is stored with status \<open>ended\<close>, the empty winner and price 0.
\<close>

theorem EndAuction_without_positive_bid:
  assumes "reachable w" and "QueryAuction ctx w auctionID = Inr a"
    and "GetSubmittingClientIdentity ctx = Some (Seller a)" and "Status a = ''closed''"
    and "RevealedBids a \<noteq> []"
    and "\<forall>(bidKey, bid)\<in>set (RevealedBids a). FullBid_Price bid \<le> 0"
  shows "EndAuction ctx w auctionID =
       (case checkForHigherBid ctx w 0 (RevealedBids a) (PrivateBids a) of
          Some e \<Rightarrow> (w, Inl (CannotEndAuction e))
        | None \<Rightarrow>
            if PutStateFails ctx auctionID then (w, Inl EndAuctionError)
            else (w\<lparr>PublicState := (PublicState w)(auctionID \<mapsto> a\<lparr>Status := ''ended''\<rparr>)\<rparr>,
                  Inr ())) \<and>
     Winner (a\<lparr>Status := ''ended''\<rparr>) = [] \<and> Price (a\<lparr>Status := ''ended''\<rparr>) = 0"
proof -
  have z: "Price a = 0 \<and> Winner a = []"
    using reachable_unended[OF assms(1) QueryAuction_Inr[OF assms(2)]] assms(4) by simp
  have "\<forall>b\<in>set (map snd (RevealedBids a)). FullBid_Price b \<le> Price a"
    using assms(6) z by auto
  then have l: "EndAuction_loop (map snd (RevealedBids a)) a = a"
    by (rule EndAuction_loop_noop)
  show ?thesis
    using EndAuction_run[OF assms(2-5), unfolded l] z by simp
qed

theorem EndAuction_without_positive_bid_witness:
  "EndAuction (sampleCtx ''alice'' ''Org1MSP'' ''tx5'' Map.empty)
     (sampleWorld (sampleAuction ''closed'' (sampleCommitments ''alice:0'')
       [(''bidA1tx1'', sampleBid 0 ''alice'')]) (sampleStore ''alice:0'')) ''A1'' =
   (sampleWorld (sampleAuction ''ended'' (sampleCommitments ''alice:0'')
       [(''bidA1tx1'', sampleBid 0 ''alice'')]) (sampleStore ''alice:0''), Inr ()) \<and>
   Winner (sampleAuction ''ended'' (sampleCommitments ''alice:0'')
       [(''bidA1tx1'', sampleBid 0 ''alice'')]) = [] \<and>
   Price (sampleAuction ''ended'' (sampleCommitments ''alice:0'')
       [(''bidA1tx1'', sampleBid 0 ''alice'')]) = 0"
proof -
  let ?ctx = "sampleCtx ''alice'' ''Org1MSP'' ''tx5'' Map.empty"
  let ?a = "sampleAuction ''closed'' (sampleCommitments ''alice:0'')
       [(''bidA1tx1'', sampleBid 0 ''alice'')]"
  let ?w = "sampleWorld ?a (sampleStore ''alice:0'')"
  have h1: "reachable ?w"
    by (rule sample_revealed_reachable) (simp add: sampleUnmarshal_def)
  have h2: "QueryAuction ?ctx ?w ''A1'' = Inr ?a"
    by (simp add: QueryAuction_def sampleCtx_def sampleWorld_def)
  have h4: "GetSubmittingClientIdentity ?ctx = Some (Seller ?a)"
    by (simp add: sampleCtx_def sampleAuction_def)
  have h5: "Status ?a = ''closed''" by (simp add: sampleAuction_def)
  have h6: "RevealedBids ?a \<noteq> []" by (simp add: sampleAuction_def)
  have h7: "\<forall>(bidKey, bid)\<in>set (RevealedBids ?a). FullBid_Price bid \<le> 0"
    by (simp add: sampleAuction_def sampleBid_def)
  have h8: "checkForHigherBid ?ctx ?w 0 (RevealedBids ?a) (PrivateBids ?a) = None"
    by (simp add: checkForHigherBid_def sample_defs)
  have h9: "\<not> PutStateFails ?ctx ''A1''" by (simp add: sampleCtx_def)
  from EndAuction_without_positive_bid[OF h1 h2 h4 h5 h6 h7] h8 h9
  show ?thesis
    by (simp add: sampleAuction_def sampleWorld_def)
qed

text \<open>
  C10 as stated has \<open>EndAuction\<close> succeed whenever no revealed price is above 0.  In
  the world reached when \<open>alice\<close> and \<open>bob\<close> each store and submit a bid, of prices
  0 and 200, and only the bid of price 0 is revealed, \<open>EndAuction\<close> called by the
  seller returns the error of the hidden higher bid.
\<close>

lemma sample_two_bids_reachable:
  "reachable (sampleWorld (sampleAuction ''closed''
       [(''bidA1tx1'', \<lparr>Org = ''Org1MSP'', Commitment = ''alice:0''\<rparr>),
        (''bidA1tx2'', \<lparr>Org = ''Org1MSP'', Commitment = ''bob:200''\<rparr>)]
       [(''bidA1tx1'', sampleBid 0 ''alice'')])
     [(''_implicit_org_Org1MSP'', ''bidA1tx1'') \<mapsto> ''alice:0'',
      (''_implicit_org_Org1MSP'', ''bidA1tx2'') \<mapsto> ''bob:200''])"
proof -
  let ?store = "[(''_implicit_org_Org1MSP'', ''bidA1tx1'') \<mapsto> ''alice:0'',
      (''_implicit_org_Org1MSP'', ''bidA1tx2'') \<mapsto> ''bob:200'']"
  let ?both = "[(''bidA1tx1'', \<lparr>Org = ''Org1MSP'', Commitment = ''alice:0''\<rparr>),
        (''bidA1tx2'', \<lparr>Org = ''Org1MSP'', Commitment = ''bob:200''\<rparr>)]"
  have r1: "reachable (sampleWorld (sampleAuction ''open'' [] []) Map.empty)"
    using reachable_step[OF reachable_empty, of "sampleCtx ''alice'' ''Org1MSP'' ''tx0'' Map.empty"
        "CallCreateAuction ''A1'' ''widget''"]
    by (simp only: sample_create)
  have r2: "reachable (sampleWorld (sampleAuction ''open'' [] []) (sampleStore ''alice:0''))"
    using reachable_step[OF r1, of "sampleCtx ''alice'' ''Org1MSP'' ''tx1'' [''bid'' \<mapsto> ''alice:0'']"
        "CallBid ''A1''"]
    by (simp only: sample_bid)
  have t3: "transaction (sampleCtx ''bob'' ''Org1MSP'' ''tx2'' [''bid'' \<mapsto> ''bob:200''])
      (CallBid ''A1'') (sampleWorld (sampleAuction ''open'' [] []) (sampleStore ''alice:0'')) =
    sampleWorld (sampleAuction ''open'' [] []) ?store"
    by (simp add: transaction_def Bid_def PutPrivateData_def Let_def sample_defs)
  have r3: "reachable (sampleWorld (sampleAuction ''open'' [] []) ?store)"
    using reachable_step[OF r2, of "sampleCtx ''bob'' ''Org1MSP'' ''tx2'' [''bid'' \<mapsto> ''bob:200'']"
        "CallBid ''A1''"]
    by (simp only: t3)
  have t4: "transaction (sampleCtx ''alice'' ''Org1MSP'' ''tx3'' Map.empty)
      (CallSubmitBid ''A1'' ''tx1'') (sampleWorld (sampleAuction ''open'' [] []) ?store) =
    sampleWorld (sampleAuction ''open'' (sampleCommitments ''alice:0'') []) ?store"
    by (simp add: transaction_def SubmitBid_def QueryAuction_def PutState_def contains_def
        sample_defs)
  have r4: "reachable (sampleWorld (sampleAuction ''open'' (sampleCommitments ''alice:0'') []) ?store)"
    using reachable_step[OF r3, of "sampleCtx ''alice'' ''Org1MSP'' ''tx3'' Map.empty"
        "CallSubmitBid ''A1'' ''tx1''"]
    by (simp only: t4)
  have t5: "transaction (sampleCtx ''bob'' ''Org1MSP'' ''tx4'' Map.empty)
      (CallSubmitBid ''A1'' ''tx2'')
      (sampleWorld (sampleAuction ''open'' (sampleCommitments ''alice:0'') []) ?store) =
    sampleWorld (sampleAuction ''open'' ?both []) ?store"
    by (simp add: transaction_def SubmitBid_def QueryAuction_def PutState_def contains_def
        sample_defs)
  have r5: "reachable (sampleWorld (sampleAuction ''open'' ?both []) ?store)"
    using reachable_step[OF r4, of "sampleCtx ''bob'' ''Org1MSP'' ''tx4'' Map.empty"
        "CallSubmitBid ''A1'' ''tx2''"]
    by (simp only: t5)
  have t6: "transaction (sampleCtx ''alice'' ''Org1MSP'' ''tx5'' Map.empty)
      (CallCloseAuction ''A1'') (sampleWorld (sampleAuction ''open'' ?both []) ?store) =
    sampleWorld (sampleAuction ''closed'' ?both []) ?store"
    by (simp add: transaction_def CloseAuction_def QueryAuction_def PutState_def sample_defs)
  have r6: "reachable (sampleWorld (sampleAuction ''closed'' ?both []) ?store)"
    using reachable_step[OF r5, of "sampleCtx ''alice'' ''Org1MSP'' ''tx5'' Map.empty"
        "CallCloseAuction ''A1''"]
    by (simp only: t6)
  have t7: "transaction (sampleCtx ''alice'' ''Org1MSP'' ''tx6'' [''bid'' \<mapsto> ''alice:0''])
      (CallRevealBid ''A1'' ''tx1'') (sampleWorld (sampleAuction ''closed'' ?both []) ?store) =
    sampleWorld (sampleAuction ''closed'' ?both [(''bidA1tx1'', sampleBid 0 ''alice'')]) ?store"
    by (simp add: transaction_def RevealBid_def RevealBid_add_def QueryAuction_def PutState_def
        sampleUnmarshal_def sample_defs)
  show ?thesis
    using reachable_step[OF r6, of "sampleCtx ''alice'' ''Org1MSP'' ''tx6'' [''bid'' \<mapsto> ''alice:0'']"
        "CallRevealBid ''A1'' ''tx1''"]
    by (simp only: t7)
qed

theorem EndAuction_zero_bid_hidden_higher_counterexample:
  "reachable (sampleWorld (sampleAuction ''closed''
       [(''bidA1tx1'', \<lparr>Org = ''Org1MSP'', Commitment = ''alice:0''\<rparr>),
        (''bidA1tx2'', \<lparr>Org = ''Org1MSP'', Commitment = ''bob:200''\<rparr>)]
       [(''bidA1tx1'', sampleBid 0 ''alice'')])
     [(''_implicit_org_Org1MSP'', ''bidA1tx1'') \<mapsto> ''alice:0'',
      (''_implicit_org_Org1MSP'', ''bidA1tx2'') \<mapsto> ''bob:200'']) \<and>
   FullBid_Price (sampleBid 0 ''alice'') \<le> 0 \<and>
   EndAuction (sampleCtx ''alice'' ''Org1MSP'' ''tx7'' Map.empty)
     (sampleWorld (sampleAuction ''closed''
       [(''bidA1tx1'', \<lparr>Org = ''Org1MSP'', Commitment = ''alice:0''\<rparr>),
        (''bidA1tx2'', \<lparr>Org = ''Org1MSP'', Commitment = ''bob:200''\<rparr>)]
       [(''bidA1tx1'', sampleBid 0 ''alice'')])
     [(''_implicit_org_Org1MSP'', ''bidA1tx1'') \<mapsto> ''alice:0'',
      (''_implicit_org_Org1MSP'', ''bidA1tx2'') \<mapsto> ''bob:200'']) ''A1'' =
   (sampleWorld (sampleAuction ''closed''
       [(''bidA1tx1'', \<lparr>Org = ''Org1MSP'', Commitment = ''alice:0''\<rparr>),
        (''bidA1tx2'', \<lparr>Org = ''Org1MSP'', Commitment = ''bob:200''\<rparr>)]
       [(''bidA1tx1'', sampleBid 0 ''alice'')])
     [(''_implicit_org_Org1MSP'', ''bidA1tx1'') \<mapsto> ''alice:0'',
      (''_implicit_org_Org1MSP'', ''bidA1tx2'') \<mapsto> ''bob:200''],
    Inl (CannotEndAuction HigherBidExists))"
proof -
  have e: "EndAuction (sampleCtx ''alice'' ''Org1MSP'' ''tx7'' Map.empty)
     (sampleWorld (sampleAuction ''closed''
       [(''bidA1tx1'', \<lparr>Org = ''Org1MSP'', Commitment = ''alice:0''\<rparr>),
        (''bidA1tx2'', \<lparr>Org = ''Org1MSP'', Commitment = ''bob:200''\<rparr>)]
       [(''bidA1tx1'', sampleBid 0 ''alice'')])
     [(''_implicit_org_Org1MSP'', ''bidA1tx1'') \<mapsto> ''alice:0'',
      (''_implicit_org_Org1MSP'', ''bidA1tx2'') \<mapsto> ''bob:200'']) ''A1'' =
   (sampleWorld (sampleAuction ''closed''
       [(''bidA1tx1'', \<lparr>Org = ''Org1MSP'', Commitment = ''alice:0''\<rparr>),
        (''bidA1tx2'', \<lparr>Org = ''Org1MSP'', Commitment = ''bob:200''\<rparr>)]
       [(''bidA1tx1'', sampleBid 0 ''alice'')])
     [(''_implicit_org_Org1MSP'', ''bidA1tx1'') \<mapsto> ''alice:0'',
      (''_implicit_org_Org1MSP'', ''bidA1tx2'') \<mapsto> ''bob:200''],
    Inl (CannotEndAuction HigherBidExists))"
    by (simp add: EndAuction_def QueryAuction_def PutState_def checkForHigherBid_def
        GetPrivateData_def sampleUnmarshal_def sample_defs)
  have p: "FullBid_Price (sampleBid 0 ''alice'') \<le> 0" by (simp add: sampleBid_def)
  from sample_two_bids_reachable p e show ?thesis by (intro conjI)
qed

section \<open>A hidden higher bid\<close>




section \<open>Revealing a bid\<close>

text \<open>
  The result of \<open>RevealBid\<close> does not depend on the range proof: whatever \<open>RPProve\<close>
  and \<open>RPVerify\<close> are, it returns the same.
\<close>

lemma RevealBid_range_proof_unused:
  "RevealBid (ctx\<lparr>RPProve := prove, RPVerify := verify\<rparr>) w auctionID txID =
   RevealBid ctx w auctionID txID"
  by (simp add: RevealBid_def RevealBid_add_def QueryAuction_def PutState_def
      split: option.splits sum.splits)

text \<open>
  C2.  The claim has a failed range proof abort the reveal.  In the code it does not: on
  the closed sample auction, with a range proof that does not verify and the three other
  checks passing, \<open>RevealBid\<close> returns no error and the bid is among the revealed bids.
\<close>

theorem RevealBid_failed_range_proof:
  "\<not> RPVerify (sampleCtx ''alice'' ''Org1MSP'' ''tx4'' [''bid'' \<mapsto> ''alice:100''])
       (RPProve (sampleCtx ''alice'' ''Org1MSP'' ''tx4'' [''bid'' \<mapsto> ''alice:100'']) ''alice:100'') \<and>
   RevealBid (sampleCtx ''alice'' ''Org1MSP'' ''tx4'' [''bid'' \<mapsto> ''alice:100''])
     (sampleWorld (sampleAuction ''closed'' (sampleCommitments ''alice:100'') [])
        (sampleStore ''alice:100'')) ''A1'' ''tx1'' =
   (sampleWorld (sampleAuction ''closed'' (sampleCommitments ''alice:100'')
        [(''bidA1tx1'', sampleBid 100 ''alice'')]) (sampleStore ''alice:100''), Inr ())"
  using sample_reveal_code[of "''alice:100''" 100]
  by (simp add: sampleUnmarshal_def sampleCtx_def)

section \<open>The status of an auction\<close>

text \<open>
  A transaction other than \<open>CreateAuction\<close> on the auction's id keeps the auction in
  the public state, and leaves its status as it is or takes it from \<open>open\<close> to
  \<open>closed\<close> or from \<open>closed\<close> to \<open>ended\<close>.
\<close>

lemma invoke_keeps_key:
  assumes "PublicState w k = Some a"
  shows "PublicState (fst (invoke ctx c w)) k \<noteq> None"
proof (cases c)
  case (CallCreateAuction auctionID itemsold)
  then show ?thesis
    using assms
    by (auto simp: CreateAuction_def PutState_def setAssetStateBasedEndorsement_def Let_def
        split: option.splits if_splits)
next
  case (CallBid auctionID)
  then show ?thesis
    using assms
    by (auto simp: Bid_def PutPrivateData_def Let_def split: option.splits if_splits)
next
  case (CallSubmitBid auctionID txID)
  then show ?thesis
    using assms
    by (auto simp: SubmitBid_def QueryAuction_def Let_def PutState_def
        addAssetStateBasedEndorsement_def split: option.splits if_splits sum.splits)
next
  case (CallRevealBid auctionID txID)
  then show ?thesis
    using assms
    by (auto simp: RevealBid_def RevealBid_add_def QueryAuction_def Let_def PutState_def
        split: option.splits if_splits sum.splits)
next
  case (CallCloseAuction auctionID)
  then show ?thesis
    using assms
    by (auto simp: CloseAuction_def QueryAuction_def PutState_def
        split: option.splits if_splits sum.splits)
next
  case (CallEndAuction auctionID)
  then show ?thesis
    using assms
    by (auto simp: EndAuction_def QueryAuction_def PutState_def Let_def
        split: option.splits if_splits sum.splits)
qed

lemma transaction_keeps_key:
  assumes "PublicState w k = Some a"
  shows "PublicState (transaction ctx c w) k \<noteq> None"
proof (cases "invoke ctx c w")
  case (Pair w1 r)
  show ?thesis
  proof (cases r)
    case (Inl e)
    then show ?thesis using assms Pair by (simp add: transaction_def)
  next
    case (Inr u)
    then have "transaction ctx c w = fst (invoke ctx c w)" using Pair by (simp add: transaction_def)
    then show ?thesis using invoke_keeps_key[OF assms] by simp
  qed
qed

lemma transaction_status:
  assumes "PublicState w k = Some a" and "\<forall>itemsold. c \<noteq> CallCreateAuction k itemsold"
  shows "\<exists>a'. PublicState (transaction ctx c w) k = Some a' \<and>
    (Status a' = Status a \<or>
     Status a = ''open'' \<and> Status a' = ''closed'' \<or>
     Status a = ''closed'' \<and> Status a' = ''ended'')"
proof -
  obtain a' where a': "PublicState (transaction ctx c w) k = Some a'"
    using transaction_keeps_key[OF assms(1)] by blast
  from transaction_document[OF a'] assms a'
  show ?thesis by (elim disjE exE conjE) auto
qed

lemma sample_ended_reachable:
  "reachable (sampleWorld ((sampleAuction ''ended'' (sampleCommitments ''alice:100'')
       [(''bidA1tx1'', sampleBid 100 ''alice'')])\<lparr>Winner := ''alice'', Price := 100\<rparr>)
     (sampleStore ''alice:100''))"
proof -
  have "reachable (sampleWorld (sampleAuction ''closed'' (sampleCommitments ''alice:100'')
           [(''bidA1tx1'', sampleBid 100 ''alice'')]) (sampleStore ''alice:100''))"
    by (rule sample_revealed_reachable) (simp add: sampleUnmarshal_def)
  then show ?thesis using reachable_step sample_end by metis
qed

text \<open>
  C4.  The claim has no operation reopen an auction.  \<open>CreateAuction\<close> does not look
  whether the auction id is in use: called with the id of the ended sample auction, which
  is reachable, it stores a fresh auction with status \<open>open\<close>, another seller, and no
  bids, winner or price.
\<close>

theorem CreateAuction_reopens_ended_auction:
  "reachable (sampleWorld ((sampleAuction ''ended'' (sampleCommitments ''alice:100'')
       [(''bidA1tx1'', sampleBid 100 ''alice'')])\<lparr>Winner := ''alice'', Price := 100\<rparr>)
     (sampleStore ''alice:100'')) \<and>
   map_option Status (PublicState (sampleWorld ((sampleAuction ''ended''
       (sampleCommitments ''alice:100'')
       [(''bidA1tx1'', sampleBid 100 ''alice'')])\<lparr>Winner := ''alice'', Price := 100\<rparr>)
     (sampleStore ''alice:100'')) ''A1'') = Some ''ended'' \<and>
   PublicState (transaction (sampleCtx ''mallory'' ''Org2MSP'' ''tx6'' Map.empty)
     (CallCreateAuction ''A1'' ''gadget'')
     (sampleWorld ((sampleAuction ''ended'' (sampleCommitments ''alice:100'')
        [(''bidA1tx1'', sampleBid 100 ''alice'')])\<lparr>Winner := ''alice'', Price := 100\<rparr>)
       (sampleStore ''alice:100''))) ''A1'' =
   Some \<lparr>Type = ''auction'', ItemSold = ''gadget'', Seller = ''mallory'', Orgs = [''Org2MSP''],
      PrivateBids = [], RevealedBids = [], Winner = [], Price = 0, Status = ''open''\<rparr>"
  using sample_ended_reachable sample_recreate[of "''alice:100''"]
  by (simp add: sampleWorld_def sampleAuction_def)

section \<open>Bids on an auction that is not open\<close>

text \<open>
  C5, as the code has it.  When the status of the auction is not \<open>open\<close>,
  \<open>SubmitBid\<close> returns an error and the world it was given; the error is
  \<open>CannotJoinAuction\<close> when the caller's organisation and the auction could be read.
  \<open>Bid\<close> does not read the public state: its result is the same whatever the
  public state holds.
\<close>

theorem SubmitBid_requires_open:
  assumes "PublicState w auctionID = Some a" and "Status a \<noteq> ''open''"
  shows "(\<exists>e. SubmitBid ctx w auctionID txID = (w, Inl e) \<and>
            (QueryAuction ctx w auctionID = Inr a \<and> GetMSPID ctx \<noteq> None \<longrightarrow> e = CannotJoinAuction)) \<and>
         Bid ctx (w\<lparr>PublicState := ps\<rparr>) auctionID =
           (case Bid ctx w auctionID of (w1, r) \<Rightarrow> (w1\<lparr>PublicState := ps\<rparr>, r))"
proof -
  have "\<exists>e. SubmitBid ctx w auctionID txID = (w, Inl e) \<and>
            (QueryAuction ctx w auctionID = Inr a \<and> GetMSPID ctx \<noteq> None \<longrightarrow> e = CannotJoinAuction)"
    using assms by (auto simp: SubmitBid_def QueryAuction_def split: option.splits)
  moreover have "Bid ctx (w\<lparr>PublicState := ps\<rparr>) auctionID =
           (case Bid ctx w auctionID of (w1, r) \<Rightarrow> (w1\<lparr>PublicState := ps\<rparr>, r))"
    by (simp add: Bid_def PutPrivateData_def Let_def split: option.splits)
  ultimately show ?thesis by blast
qed

theorem SubmitBid_requires_open_witness:
  "SubmitBid (sampleCtx ''bob'' ''Org1MSP'' ''tx8'' Map.empty)
     (sampleWorld (sampleAuction ''closed'' (sampleCommitments ''alice:100'') [])
        (sampleStore ''alice:100'')) ''A1'' ''tx7'' =
   (sampleWorld (sampleAuction ''closed'' (sampleCommitments ''alice:100'') [])
        (sampleStore ''alice:100''), Inl CannotJoinAuction)"
proof -
  let ?ctx = "sampleCtx ''bob'' ''Org1MSP'' ''tx8'' Map.empty"
  let ?a = "sampleAuction ''closed'' (sampleCommitments ''alice:100'') []"
  let ?w = "sampleWorld ?a (sampleStore ''alice:100'')"
  have h1: "PublicState ?w ''A1'' = Some ?a" by (simp add: sampleWorld_def)
  have h2: "Status ?a \<noteq> ''open''" by (simp add: sampleAuction_def)
  have g: "QueryAuction ?ctx ?w ''A1'' = Inr ?a \<and> GetMSPID ?ctx \<noteq> None"
    by (simp add: QueryAuction_def sampleCtx_def sampleWorld_def)
  from SubmitBid_requires_open[OF h1 h2, of ?ctx "''tx7''"] g
  show ?thesis by auto
qed

text \<open>
  C5 as stated fails for \<open>Bid\<close>: on the closed sample auction \<open>Bid\<close> returns the
  transaction id and the bid is in the private collection.
\<close>

theorem Bid_on_closed_auction_counterexample:
  "map_option Status (PublicState (sampleWorld (sampleAuction ''closed''
       (sampleCommitments ''alice:100'') []) (sampleStore ''alice:100'')) ''A1'') = Some ''closed'' \<and>
   Bid (sampleCtx ''bob'' ''Org1MSP'' ''tx7'' [''bid'' \<mapsto> ''bob:200''])
     (sampleWorld (sampleAuction ''closed'' (sampleCommitments ''alice:100'') [])
        (sampleStore ''alice:100'')) ''A1'' =
   (sampleWorld (sampleAuction ''closed'' (sampleCommitments ''alice:100'') [])
        ((sampleStore ''alice:100'')((''_implicit_org_Org1MSP'', ''bidA1tx7'') \<mapsto> ''bob:200'')),
    Inr ''tx7'')"
  by (simp add: Bid_def PutPrivateData_def Let_def sample_defs)

section \<open>Access control\<close>

text \<open>
  C6.  When the caller is not the seller of the auction, \<open>CloseAuction\<close> and
  \<open>EndAuction\<close> return their only-the-seller error and the world they were given.
  When the caller is not the bidder of the bid stored under the bid key, \<open>QueryBid\<close>
  returns an error, \<open>NotOwnerOfBid\<close> when the earlier steps of \<open>QueryBid\<close> pass;
  \<open>QueryBid\<close> returns no world, it writes nothing.
\<close>

theorem only_seller_closes_and_ends:
  "(QueryAuction ctx w auctionID = Inr a \<and>
    GetSubmittingClientIdentity ctx = Some clientID \<and> clientID \<noteq> Seller a \<longrightarrow>
      CloseAuction ctx w auctionID = (w, Inl OnlySellerCanClose) \<and>
      EndAuction ctx w auctionID = (w, Inl OnlySellerCanEnd)) \<and>
   (getCollectionName ctx = Some collection \<and>
    NewECPrimeGroupKey ctx bidKeyType [auctionID, txID] = Some bidKey \<and>
    PrivateData w (collection, bidKey) = Some bidJSON \<and> Unmarshal ctx bidJSON = Some bid \<and>
    GetSubmittingClientIdentity ctx \<noteq> Some (Bidder bid) \<longrightarrow>
      (\<exists>e. QueryBid ctx w auctionID txID = Inl e) \<and>
      (verifyClientOrgMatchesPeerOrg ctx \<and> GetSubmittingClientIdentity ctx \<noteq> None \<and>
       \<not> GetPrivateDataFails ctx collection bidKey \<longrightarrow>
         QueryBid ctx w auctionID txID = Inl NotOwnerOfBid))"
  by (auto simp: CloseAuction_def EndAuction_def QueryAuction_def QueryBid_def GetPrivateData_def
      split: option.splits)

theorem only_seller_closes_and_ends_witness:
  "CloseAuction (sampleCtx ''bob'' ''Org1MSP'' ''tx3'' Map.empty)
     (sampleWorld (sampleAuction ''open'' (sampleCommitments ''alice:100'') [])
        (sampleStore ''alice:100'')) ''A1'' =
   (sampleWorld (sampleAuction ''open'' (sampleCommitments ''alice:100'') [])
        (sampleStore ''alice:100''), Inl OnlySellerCanClose) \<and>
   EndAuction (sampleCtx ''bob'' ''Org1MSP'' ''tx3'' Map.empty)
     (sampleWorld (sampleAuction ''open'' (sampleCommitments ''alice:100'') [])
        (sampleStore ''alice:100'')) ''A1'' =
   (sampleWorld (sampleAuction ''open'' (sampleCommitments ''alice:100'') [])
        (sampleStore ''alice:100''), Inl OnlySellerCanEnd) \<and>
   QueryBid (sampleCtx ''bob'' ''Org1MSP'' ''tx3'' Map.empty)
     (sampleWorld (sampleAuction ''open'' (sampleCommitments ''alice:100'') [])
        (sampleStore ''alice:100'')) ''A1'' ''tx1'' = Inl NotOwnerOfBid"
proof -
  let ?ctx = "sampleCtx ''bob'' ''Org1MSP'' ''tx3'' Map.empty"
  let ?a = "sampleAuction ''open'' (sampleCommitments ''alice:100'') []"
  let ?w = "sampleWorld ?a (sampleStore ''alice:100'')"
  have h1: "QueryAuction ?ctx ?w ''A1'' = Inr ?a \<and>
    GetSubmittingClientIdentity ?ctx = Some ''bob'' \<and> ''bob'' \<noteq> Seller ?a"
    by (simp add: QueryAuction_def sampleCtx_def sampleWorld_def sampleAuction_def)
  have h2: "getCollectionName ?ctx = Some ''_implicit_org_Org1MSP'' \<and>
    NewECPrimeGroupKey ?ctx bidKeyType [''A1'', ''tx1''] = Some ''bidA1tx1'' \<and>
    PrivateData ?w (''_implicit_org_Org1MSP'', ''bidA1tx1'') = Some ''alice:100'' \<and>
    Unmarshal ?ctx ''alice:100'' = Some (sampleBid 100 ''alice'') \<and>
    GetSubmittingClientIdentity ?ctx \<noteq> Some (Bidder (sampleBid 100 ''alice''))"
    by (simp add: sample_defs sampleUnmarshal_def)
  have h3: "verifyClientOrgMatchesPeerOrg ?ctx \<and> GetSubmittingClientIdentity ?ctx \<noteq> None \<and>
       \<not> GetPrivateDataFails ?ctx ''_implicit_org_Org1MSP'' ''bidA1tx1''"
    by (simp add: sampleCtx_def)
  from only_seller_closes_and_ends[where ctx = ?ctx and auctionID = "''A1''" and w = ?w
      and a = ?a and clientID = "''bob''" and collection = "''_implicit_org_Org1MSP''"
      and txID = "''tx1''" and bidKey = "''bidA1tx1''" and bidJSON = "''alice:100''"
      and bid = "sampleBid 100 ''alice''"] h1 h2 h3
  show ?thesis by blast
qed

section \<open>Operations that return an error\<close>

text \<open>
  Every error of \<open>Bid\<close>, \<open>CloseAuction\<close>, \<open>RevealBid\<close> and \<open>EndAuction\<close> is
  returned before the one write of the operation, and a write that fails writes nothing.
  \<open>SubmitBid\<close> may have added an endorser when its write of the auction fails.
  \<open>CreateAuction\<close> writes the auction first and sets the endorsement policy after: when
  that fails, the error is returned with the auction written.
\<close>

lemma CreateAuction_failure:
  "CreateAuction ctx w auctionID itemsold = (w1, Inl e) \<Longrightarrow>
   PrivateData w1 = PrivateData w \<and> (e \<noteq> EndorsementError \<longrightarrow> w1 = w)"
  by (auto simp: CreateAuction_def PutState_def setAssetStateBasedEndorsement_def Let_def
      split: option.splits if_splits)

lemma Bid_failure: "Bid ctx w auctionID = (w1, Inl e) \<Longrightarrow> w1 = w"
  by (auto simp: Bid_def PutPrivateData_def Let_def split: option.splits if_splits)

lemma SubmitBid_failure:
  "SubmitBid ctx w auctionID txID = (w1, Inl e) \<Longrightarrow>
   PublicState w1 = PublicState w \<and> PrivateData w1 = PrivateData w"
  apply (simp add: SubmitBid_def QueryAuction_def Let_def split: option.splits if_splits sum.splits)
  apply (auto simp: PutState_def addAssetStateBasedEndorsement_def split: option.splits if_splits)
  done

lemma CloseAuction_failure: "CloseAuction ctx w auctionID = (w1, Inl e) \<Longrightarrow> w1 = w"
  by (auto simp: CloseAuction_def QueryAuction_def PutState_def
      split: option.splits if_splits sum.splits)

lemma RevealBid_add_failure:
  "RevealBid_add ctx w auctionID a clientID bidKey j = (w1, Inl e) \<Longrightarrow> w1 = w"
  by (auto simp: RevealBid_add_def PutState_def Let_def split: option.splits if_splits)

lemma RevealBid_failure: "RevealBid ctx w auctionID txID = (w1, Inl e) \<Longrightarrow> w1 = w"
  apply (simp add: RevealBid_def QueryAuction_def split: option.splits if_splits sum.splits)
  apply (auto dest: RevealBid_add_failure)
  done

lemma EndAuction_failure: "EndAuction ctx w auctionID = (w1, Inl e) \<Longrightarrow> w1 = w"
  by (auto simp: EndAuction_def QueryAuction_def PutState_def Let_def
      split: option.splits if_splits sum.splits)

lemma invoke_failure:
  assumes "invoke ctx c w = (w1, Inl e)"
  shows "PrivateData w1 = PrivateData w \<and>
    ((\<forall>auctionID itemsold. c \<noteq> CallCreateAuction auctionID itemsold) \<or> e \<noteq> EndorsementError
       \<longrightarrow> PublicState w1 = PublicState w)"
proof (cases c)
  case (CallCreateAuction auctionID itemsold)
  then show ?thesis using assms CreateAuction_failure[of ctx w auctionID itemsold w1 e] by auto
next
  case (CallBid auctionID)
  then obtain e' where "Bid ctx w auctionID = (w1, Inl e')"
    using assms by (cases "Bid ctx w auctionID"; cases "snd (Bid ctx w auctionID)") auto
  then show ?thesis using Bid_failure by blast
next
  case (CallSubmitBid auctionID txID)
  then show ?thesis using assms SubmitBid_failure[of ctx w auctionID txID w1 e] by auto
next
  case (CallRevealBid auctionID txID)
  then show ?thesis using assms RevealBid_failure[of ctx w auctionID txID w1 e] by auto
next
  case (CallCloseAuction auctionID)
  then show ?thesis using assms CloseAuction_failure[of ctx w auctionID w1 e] by auto
next
  case (CallEndAuction auctionID)
  then show ?thesis using assms EndAuction_failure[of ctx w auctionID w1 e] by auto
qed

lemma CreateAuction_endorsement_failure:
  "CreateAuction ((sampleCtx ''alice'' ''Org1MSP'' ''tx0'' Map.empty)\<lparr>EndorsementFails := \<lambda>_. True\<rparr>)
     emptyWorld ''A1'' ''widget'' =
   (emptyWorld\<lparr>PublicState := [''A1'' \<mapsto> sampleAuction ''open'' [] []]\<rparr>, Inl EndorsementError)"
  by (simp add: CreateAuction_def PutState_def setAssetStateBasedEndorsement_def emptyWorld_def
      sample_defs)

text \<open>
  C7.  When an operation returns an error, the transaction leaves the world as it was:
  the ledger drops the writes of a failed transaction.  Before that, in the world the
  operation itself returns, the private collections are as they were, and so is the
  public state, unless the operation is \<open>CreateAuction\<close> and the error is that of the
  endorsement policy.
\<close>

theorem failed_operation_leaves_stores:
  assumes "snd (invoke ctx c w) = Inl e"
  shows "transaction ctx c w = w \<and>
    PrivateData (fst (invoke ctx c w)) = PrivateData w \<and>
    ((\<forall>auctionID itemsold. c \<noteq> CallCreateAuction auctionID itemsold) \<or> e \<noteq> EndorsementError
       \<longrightarrow> PublicState (fst (invoke ctx c w)) = PublicState w)"
proof -
  obtain w1 where i: "invoke ctx c w = (w1, Inl e)"
    using assms by (cases "invoke ctx c w") auto
  have "transaction ctx c w = w" using i by (simp add: transaction_def)
  then show ?thesis using invoke_failure[OF i] i by simp
qed

theorem failed_operation_leaves_stores_witness:
  "snd (invoke (sampleCtx ''alice'' ''Org1MSP'' ''tx4'' [''bid'' \<mapsto> ''bob:200''])
      (CallRevealBid ''A1'' ''tx1'')
      (sampleWorld (sampleAuction ''closed'' (sampleCommitments ''alice:100'') [])
        (sampleStore ''alice:100''))) = Inl LedgerCommitmentMismatch \<and>
   transaction (sampleCtx ''alice'' ''Org1MSP'' ''tx4'' [''bid'' \<mapsto> ''bob:200''])
      (CallRevealBid ''A1'' ''tx1'')
      (sampleWorld (sampleAuction ''closed'' (sampleCommitments ''alice:100'') [])
        (sampleStore ''alice:100'')) =
   sampleWorld (sampleAuction ''closed'' (sampleCommitments ''alice:100'') [])
        (sampleStore ''alice:100'') \<and>
   PublicState (fst (invoke (sampleCtx ''alice'' ''Org1MSP'' ''tx4'' [''bid'' \<mapsto> ''bob:200''])
      (CallRevealBid ''A1'' ''tx1'')
      (sampleWorld (sampleAuction ''closed'' (sampleCommitments ''alice:100'') [])
        (sampleStore ''alice:100'')))) =
   PublicState (sampleWorld (sampleAuction ''closed'' (sampleCommitments ''alice:100'') [])
        (sampleStore ''alice:100''))"
proof -
  let ?ctx = "sampleCtx ''alice'' ''Org1MSP'' ''tx4'' [''bid'' \<mapsto> ''bob:200'']"
  let ?w = "sampleWorld (sampleAuction ''closed'' (sampleCommitments ''alice:100'') [])
        (sampleStore ''alice:100'')"
  have h: "snd (invoke ?ctx (CallRevealBid ''A1'' ''tx1'') ?w) = Inl LedgerCommitmentMismatch"
    by (simp add: RevealBid_def QueryAuction_def sample_defs)
  from failed_operation_leaves_stores[OF h] h show ?thesis by simp
qed

section \<open>Hidden bids of other organisations\<close>

lemma checkForHigherBid_loop_range_proof_unused:
  "checkForHigherBid_loop (ctx\<lparr>RPProve := prove, RPVerify := verify\<rparr>) w peer p revealed bidders err =
   checkForHigherBid_loop ctx w peer p revealed bidders err"
  by (induction bidders arbitrary: err)
     (auto simp: Let_def GetPrivateData_def split: option.splits)

lemma checkForHigherBid_loop_remote_price:
  "\<forall>(k, pb)\<in>set bidders. map_of revealed k = None \<longrightarrow> Org pb \<noteq> peer \<Longrightarrow>
   checkForHigherBid_loop (ctx\<lparr>Unmarshal := decode\<rparr>) w peer p' revealed bidders err =
     checkForHigherBid_loop ctx w peer p revealed bidders err"
  by (induction bidders arbitrary: err)
     (auto simp: Let_def split: option.splits)

lemma checkForHigherBid_loop_remote_errors:
  "\<forall>(k, pb)\<in>set bidders. map_of revealed k = None \<longrightarrow> Org pb \<noteq> peer \<Longrightarrow>
   checkForHigherBid_loop ctx w peer p revealed bidders err \<in>
     {err, Some ReadCommitmentError, Some CommitmentDoesNotExist}"
proof (induction bidders arbitrary: err)
  case Nil
  then show ?case by simp
next
  case (Cons x xs)
  obtain k pb where x: "x = (k, pb)" by (cases x)
  have ih: "checkForHigherBid_loop ctx w peer p revealed xs err \<in>
     {err, Some ReadCommitmentError, Some CommitmentDoesNotExist}"
    using Cons.IH Cons.prems by simp
  show ?case
    using Cons.prems ih x by (simp add: Let_def split: option.splits)
qed

lemma checkForHigherBid_loop_remote_present:
  "\<forall>(k, pb)\<in>set bidders. map_of revealed k = None \<longrightarrow> Org pb \<noteq> peer \<Longrightarrow>
   \<forall>(k, pb)\<in>set bidders. map_of revealed k = None \<longrightarrow>
      (\<exists>c. VectorPCommit ctx (PrivateData w) (''_implicit_org_'' @ Org pb) k = Some (Some c)) \<Longrightarrow>
   checkForHigherBid_loop ctx w peer p revealed bidders err = err"
proof (induction bidders arbitrary: err)
  case Nil
  then show ?case by simp
next
  case (Cons x xs)
  obtain k pb where x: "x = (k, pb)" by (cases x)
  have ih: "checkForHigherBid_loop ctx w peer p revealed xs err = err"
    using Cons.IH Cons.prems by simp
  show ?case
    using Cons.prems ih x by (auto simp: Let_def split: option.splits)
qed

lemma checkForHigherBid_loop_None_iff:
  "checkForHigherBid_loop ctx w peer p revealed bidders err = None \<longleftrightarrow>
   err = None \<and>
   (\<forall>(k, pb)\<in>set bidders. map_of revealed k = None \<longrightarrow>
      (if Org pb = peer
       then \<exists>j b. GetPrivateData ctx w (''_implicit_org_'' @ Org pb) k = Some (Some j) \<and>
              Unmarshal ctx j = Some b \<and> FullBid_Price b \<le> p
       else \<exists>c. VectorPCommit ctx (PrivateData w) (''_implicit_org_'' @ Org pb) k = Some (Some c)))"
proof (induction bidders arbitrary: err)
  case Nil
  then show ?case by simp
next
  case (Cons x xs)
  obtain k pb where x: "x = (k, pb)" by (cases x)
  show ?case
  proof (cases "map_of revealed k")
    case (Some y)
    then show ?thesis using Cons.IH[of err] x by simp
  next
    case None
    show ?thesis
    proof (cases "Org pb = peer")
      case True
      show ?thesis
      proof (cases "GetPrivateData ctx w (''_implicit_org_'' @ Org pb) k")
        case n1: None
        then show ?thesis using None True x by simp
      next
        case s1: (Some d)
        show ?thesis
        proof (cases d)
          case n2: None
          then show ?thesis using None True x s1 by simp
        next
          case s2: (Some j)
          show ?thesis
          proof (cases "Unmarshal ctx j")
            case n3: None
            then show ?thesis using None True x s1 s2 by simp
          next
            case s3: (Some b)
            show ?thesis
              using None True x s1 s2 s3
                Cons.IH[of "if FullBid_Price b > p then Some HigherBidExists else err"]
              by (auto simp: Let_def)
          qed
        qed
      qed
    next
      case False
      show ?thesis
      proof (cases "VectorPCommit ctx (PrivateData w) (''_implicit_org_'' @ Org pb) k")
        case n1: None
        then show ?thesis using None False x by simp
      next
        case s1: (Some d)
        show ?thesis
        proof (cases d)
          case n2: None
          then show ?thesis using None False x s1 by simp
        next
          case s2: (Some c)
          then show ?thesis using None False x s1 Cons.IH[of err] by simp
        qed
      qed
    qed
  qed
qed

lemma checkForHigherBid_loop_decode:
  "\<forall>(k, pb)\<in>set bidders. map_of revealed k = None \<and> Org pb = peer \<longrightarrow>
      (\<forall>j. PrivateData w (''_implicit_org_'' @ peer, k) = Some j \<longrightarrow> decode j = Unmarshal ctx j) \<Longrightarrow>
   checkForHigherBid_loop (ctx\<lparr>Unmarshal := decode\<rparr>) w peer p revealed bidders err =
     checkForHigherBid_loop ctx w peer p revealed bidders err"
proof (induction bidders arbitrary: err)
  case Nil
  then show ?case by simp
next
  case (Cons x xs)
  obtain k pb where x: "x = (k, pb)" by (cases x)
  have ih: "\<And>err. checkForHigherBid_loop (ctx\<lparr>Unmarshal := decode\<rparr>) w peer p revealed xs err =
     checkForHigherBid_loop ctx w peer p revealed xs err"
    using Cons.IH Cons.prems by simp
  have g: "GetPrivateData (ctx\<lparr>Unmarshal := decode\<rparr>) w = GetPrivateData ctx w"
    by (simp add: GetPrivateData_def fun_eq_iff)
  have d: "decode j = Unmarshal ctx j"
    if "map_of revealed k = None" "Org pb = peer"
      "GetPrivateData ctx w (''_implicit_org_'' @ Org pb) k = Some (Some j)" for j
    using Cons.prems x that by (auto simp: GetPrivateData_def split: if_splits)
  show ?case
    using x ih d by (auto simp: Let_def g split: option.splits)
qed

text \<open>
  C8, as the code has it.  \<open>checkForHigherBid\<close> evaluates no range proof: its result is
  the same whatever \<open>RPProve\<close> and \<open>RPVerify\<close> are.  It returns no error exactly when
  every hidden bid of the peer's organisation is read, decodes and has a price not above
  the given one, and the commitment of every hidden bid of another organisation is read
  and exists; so it returns an error when the read of such a commitment fails or gives
  \<open>nil\<close>.  Bids are decoded only for the hidden bids of the peer's organisation: the
  result is the same for every decoder that agrees on those, so the price of a hidden
  bid of another organisation is not compared.  When every hidden bid belongs to another
  organisation, the result depends neither on the price nor on the decoder, and an
  error is one of reading a commitment.
\<close>

theorem checkForHigherBid_remote_bids:
  "checkForHigherBid (ctx\<lparr>RPProve := prove, RPVerify := verify\<rparr>) w price revealed bidders =
     checkForHigherBid ctx w price revealed bidders \<and>
   (PeerMSPID ctx = Some peer \<longrightarrow>
     (checkForHigherBid ctx w price revealed bidders = None \<longleftrightarrow>
        (\<forall>(k, pb)\<in>set bidders. map_of revealed k = None \<longrightarrow>
           (if Org pb = peer
            then \<exists>j b. GetPrivateData ctx w (''_implicit_org_'' @ Org pb) k = Some (Some j) \<and>
                   Unmarshal ctx j = Some b \<and> FullBid_Price b \<le> price
            else \<exists>c. VectorPCommit ctx (PrivateData w) (''_implicit_org_'' @ Org pb) k =
                   Some (Some c)))) \<and>
     ((\<exists>(k, pb)\<in>set bidders. map_of revealed k = None \<and> Org pb \<noteq> peer \<and>
          VectorPCommit ctx (PrivateData w) (''_implicit_org_'' @ Org pb) k \<in> {None, Some None})
        \<longrightarrow> (\<exists>e. checkForHigherBid ctx w price revealed bidders = Some e)) \<and>
     ((\<forall>(k, pb)\<in>set bidders. map_of revealed k = None \<and> Org pb = peer \<longrightarrow>
          (\<forall>j. PrivateData w (''_implicit_org_'' @ peer, k) = Some j \<longrightarrow>
                 decode j = Unmarshal ctx j))
        \<longrightarrow> checkForHigherBid (ctx\<lparr>Unmarshal := decode\<rparr>) w price revealed bidders =
              checkForHigherBid ctx w price revealed bidders) \<and>
     ((\<forall>(k, pb)\<in>set bidders. map_of revealed k = None \<longrightarrow> Org pb \<noteq> peer) \<longrightarrow>
        checkForHigherBid (ctx\<lparr>Unmarshal := decode\<rparr>) w price' revealed bidders =
          checkForHigherBid ctx w price revealed bidders \<and>
        checkForHigherBid ctx w price revealed bidders \<in>
          {None, Some ReadCommitmentError, Some CommitmentDoesNotExist} \<and>
        ((\<forall>(k, pb)\<in>set bidders. map_of revealed k = None \<longrightarrow>
            (\<exists>c. VectorPCommit ctx (PrivateData w) (''_implicit_org_'' @ Org pb) k =
                   Some (Some c)))
         \<longrightarrow> checkForHigherBid ctx w price revealed bidders = None)))"
proof -
  have a: "checkForHigherBid (ctx\<lparr>RPProve := prove, RPVerify := verify\<rparr>) w price revealed bidders =
     checkForHigherBid ctx w price revealed bidders"
    by (simp add: checkForHigherBid_def checkForHigherBid_loop_range_proof_unused
        split: option.splits)
  have b: "(checkForHigherBid ctx w price revealed bidders = None \<longleftrightarrow>
        (\<forall>(k, pb)\<in>set bidders. map_of revealed k = None \<longrightarrow>
           (if Org pb = peer
            then \<exists>j b. GetPrivateData ctx w (''_implicit_org_'' @ Org pb) k = Some (Some j) \<and>
                   Unmarshal ctx j = Some b \<and> FullBid_Price b \<le> price
            else \<exists>c. VectorPCommit ctx (PrivateData w) (''_implicit_org_'' @ Org pb) k =
                   Some (Some c)))) \<and>
     ((\<exists>(k, pb)\<in>set bidders. map_of revealed k = None \<and> Org pb \<noteq> peer \<and>
          VectorPCommit ctx (PrivateData w) (''_implicit_org_'' @ Org pb) k \<in> {None, Some None})
        \<longrightarrow> (\<exists>e. checkForHigherBid ctx w price revealed bidders = Some e)) \<and>
     ((\<forall>(k, pb)\<in>set bidders. map_of revealed k = None \<and> Org pb = peer \<longrightarrow>
          (\<forall>j. PrivateData w (''_implicit_org_'' @ peer, k) = Some j \<longrightarrow>
                 decode j = Unmarshal ctx j))
        \<longrightarrow> checkForHigherBid (ctx\<lparr>Unmarshal := decode\<rparr>) w price revealed bidders =
              checkForHigherBid ctx w price revealed bidders) \<and>
     ((\<forall>(k, pb)\<in>set bidders. map_of revealed k = None \<longrightarrow> Org pb \<noteq> peer) \<longrightarrow>
        checkForHigherBid (ctx\<lparr>Unmarshal := decode\<rparr>) w price' revealed bidders =
          checkForHigherBid ctx w price revealed bidders \<and>
        checkForHigherBid ctx w price revealed bidders \<in>
          {None, Some ReadCommitmentError, Some CommitmentDoesNotExist} \<and>
        ((\<forall>(k, pb)\<in>set bidders. map_of revealed k = None \<longrightarrow>
            (\<exists>c. VectorPCommit ctx (PrivateData w) (''_implicit_org_'' @ Org pb) k =
                   Some (Some c)))
         \<longrightarrow> checkForHigherBid ctx w price revealed bidders = None))"
    if peer: "PeerMSPID ctx = Some peer"
  proof -
    have c1: "checkForHigherBid ctx w price revealed bidders =
        checkForHigherBid_loop ctx w peer price revealed bidders None"
      using peer by (simp add: checkForHigherBid_def)
    have c2: "\<And>q. checkForHigherBid (ctx\<lparr>Unmarshal := decode\<rparr>) w q revealed bidders =
        checkForHigherBid_loop (ctx\<lparr>Unmarshal := decode\<rparr>) w peer q revealed bidders None"
      using peer by (simp add: checkForHigherBid_def)
    have b1: "checkForHigherBid ctx w price revealed bidders = None \<longleftrightarrow>
        (\<forall>(k, pb)\<in>set bidders. map_of revealed k = None \<longrightarrow>
           (if Org pb = peer
            then \<exists>j b. GetPrivateData ctx w (''_implicit_org_'' @ Org pb) k = Some (Some j) \<and>
                   Unmarshal ctx j = Some b \<and> FullBid_Price b \<le> price
            else \<exists>c. VectorPCommit ctx (PrivateData w) (''_implicit_org_'' @ Org pb) k =
                   Some (Some c)))"
      unfolding c1 by (simp add: checkForHigherBid_loop_None_iff)
    have b2: "\<exists>e. checkForHigherBid ctx w price revealed bidders = Some e"
      if "\<exists>(k, pb)\<in>set bidders. map_of revealed k = None \<and> Org pb \<noteq> peer \<and>
          VectorPCommit ctx (PrivateData w) (''_implicit_org_'' @ Org pb) k \<in> {None, Some None}"
    proof -
      have "checkForHigherBid ctx w price revealed bidders \<noteq> None"
        using that unfolding b1 by fastforce
      then show ?thesis by blast
    qed
    have b3: "checkForHigherBid (ctx\<lparr>Unmarshal := decode\<rparr>) w price revealed bidders =
              checkForHigherBid ctx w price revealed bidders"
      if "\<forall>(k, pb)\<in>set bidders. map_of revealed k = None \<and> Org pb = peer \<longrightarrow>
          (\<forall>j. PrivateData w (''_implicit_org_'' @ peer, k) = Some j \<longrightarrow>
                 decode j = Unmarshal ctx j)"
      unfolding c1 c2 by (rule checkForHigherBid_loop_decode[OF that])
    have b4: "checkForHigherBid (ctx\<lparr>Unmarshal := decode\<rparr>) w price' revealed bidders =
          checkForHigherBid ctx w price revealed bidders \<and>
        checkForHigherBid ctx w price revealed bidders \<in>
          {None, Some ReadCommitmentError, Some CommitmentDoesNotExist} \<and>
        ((\<forall>(k, pb)\<in>set bidders. map_of revealed k = None \<longrightarrow>
            (\<exists>c. VectorPCommit ctx (PrivateData w) (''_implicit_org_'' @ Org pb) k =
                   Some (Some c)))
         \<longrightarrow> checkForHigherBid ctx w price revealed bidders = None)"
      if "\<forall>(k, pb)\<in>set bidders. map_of revealed k = None \<longrightarrow> Org pb \<noteq> peer"
      unfolding c1 c2
      using checkForHigherBid_loop_remote_price[OF that]
        checkForHigherBid_loop_remote_errors[OF that]
        checkForHigherBid_loop_remote_present[OF that]
      by blast
    show ?thesis using b1 b2 b3 b4 by blast
  qed
  show ?thesis using a b by blast
qed

theorem checkForHigherBid_remote_bids_witness:
  "checkForHigherBid (sampleCtx ''alice'' ''Org1MSP'' ''tx5'' Map.empty)
     (sampleWorld (sampleAuction ''closed'' [] [])
        [(''_implicit_org_Org2MSP'', ''bidA1tx3'') \<mapsto> ''carol:300'']) 100
     [(''bidA1tx1'', sampleBid 100 ''alice'')]
     [(''bidA1tx1'', \<lparr>Org = ''Org1MSP'', Commitment = ''alice:100''\<rparr>),
      (''bidA1tx3'', \<lparr>Org = ''Org2MSP'', Commitment = ''carol:300''\<rparr>)] = None \<and>
   (\<exists>e. checkForHigherBid (sampleCtx ''alice'' ''Org1MSP'' ''tx5'' Map.empty)
     (sampleWorld (sampleAuction ''closed'' [] []) Map.empty) 100
     [(''bidA1tx1'', sampleBid 100 ''alice'')]
     [(''bidA1tx1'', \<lparr>Org = ''Org1MSP'', Commitment = ''alice:100''\<rparr>),
      (''bidA1tx3'', \<lparr>Org = ''Org2MSP'', Commitment = ''carol:300''\<rparr>)] = Some e)"
proof -
  let ?ctx = "sampleCtx ''alice'' ''Org1MSP'' ''tx5'' Map.empty"
  let ?w = "sampleWorld (sampleAuction ''closed'' [] [])
        [(''_implicit_org_Org2MSP'', ''bidA1tx3'') \<mapsto> ''carol:300'']"
  let ?empty = "sampleWorld (sampleAuction ''closed'' [] []) Map.empty"
  let ?revealed = "[(''bidA1tx1'', sampleBid 100 ''alice'')]"
  let ?bidders = "[(''bidA1tx1'', \<lparr>Org = ''Org1MSP'', Commitment = ''alice:100''\<rparr>),
      (''bidA1tx3'', \<lparr>Org = ''Org2MSP'', Commitment = ''carol:300''\<rparr>)]"
  have h1: "PeerMSPID ?ctx = Some ''Org1MSP''" by (simp add: sampleCtx_def)
  have h2: "\<forall>(k, pb)\<in>set ?bidders. map_of ?revealed k = None \<longrightarrow>
           (if Org pb = ''Org1MSP''
            then \<exists>j b. GetPrivateData ?ctx ?w (''_implicit_org_'' @ Org pb) k = Some (Some j) \<and>
                   Unmarshal ?ctx j = Some b \<and> FullBid_Price b \<le> 100
            else \<exists>c. VectorPCommit ?ctx (PrivateData ?w) (''_implicit_org_'' @ Org pb) k =
                   Some (Some c))"
    by (simp add: sampleWorld_def, simp add: sampleCtx_def)
  have h3: "\<exists>(k, pb)\<in>set ?bidders. map_of ?revealed k = None \<and> Org pb \<noteq> ''Org1MSP'' \<and>
          VectorPCommit ?ctx (PrivateData ?empty) (''_implicit_org_'' @ Org pb) k \<in> {None, Some None}"
    by (simp add: sampleCtx_def sampleWorld_def)
  note t = checkForHigherBid_remote_bids[where ctx = ?ctx and prove = "\<lambda>b. b"
      and verify = "\<lambda>_. True" and w = ?w and price = 100 and revealed = ?revealed
      and bidders = ?bidders and peer = "''Org1MSP''" and decode = sampleUnmarshal
      and price' = 100]
  note s = checkForHigherBid_remote_bids[where ctx = ?ctx and prove = "\<lambda>b. b"
      and verify = "\<lambda>_. True" and w = ?empty and price = 100 and revealed = ?revealed
      and bidders = ?bidders and peer = "''Org1MSP''" and decode = sampleUnmarshal
      and price' = 100]
  from t[THEN conjunct2, THEN mp, OF h1, THEN conjunct1, THEN iffD2, OF h2]
  have r: "checkForHigherBid ?ctx ?w 100 ?revealed ?bidders = None" .
  from s[THEN conjunct2, THEN mp, OF h1, THEN conjunct2, THEN conjunct1, THEN mp, OF h3]
  have r0: "\<exists>e. checkForHigherBid ?ctx ?empty 100 ?revealed ?bidders = Some e" .
  from r r0 show ?thesis by (rule conjI)
qed

text \<open>
  C8 as stated has the range proof of a hidden bid of another organisation verified
  again.  With a range proof that does not verify, \<open>checkForHigherBid\<close> reports no
  error for such a bid once its commitment is read.
\<close>

theorem checkForHigherBid_remote_counterexample:
  "\<not> RPVerify (sampleCtx ''alice'' ''Org1MSP'' ''tx5'' Map.empty)
       (RPProve (sampleCtx ''alice'' ''Org1MSP'' ''tx5'' Map.empty) ''carol:300'') \<and>
   VectorPCommit (sampleCtx ''alice'' ''Org1MSP'' ''tx5'' Map.empty)
     [(''_implicit_org_Org2MSP'', ''bidA1tx3'') \<mapsto> ''carol:300'']
     ''_implicit_org_Org2MSP'' ''bidA1tx3'' = Some (Some ''carol:300'') \<and>
   checkForHigherBid (sampleCtx ''alice'' ''Org1MSP'' ''tx5'' Map.empty)
     (sampleWorld (sampleAuction ''closed'' [] [])
        [(''_implicit_org_Org2MSP'', ''bidA1tx3'') \<mapsto> ''carol:300'']) 100
     [(''bidA1tx1'', sampleBid 100 ''alice'')]
     [(''bidA1tx1'', \<lparr>Org = ''Org1MSP'', Commitment = ''alice:100''\<rparr>),
      (''bidA1tx3'', \<lparr>Org = ''Org2MSP'', Commitment = ''carol:300''\<rparr>)] = None"
  by (simp add: checkForHigherBid_def sampleCtx_def sampleWorld_def)

end
